theory Spec2Isabelle
  imports Main "HOL-Library.AList" "HOL-Library.Sublist"
begin

text \<open>
  A model of \<^verbatim>\<open>hyperdb-helper\<close>: the class \<^verbatim>\<open>HyperdbHelper\<close> of \<^verbatim>\<open>src/index.js\<close> with its
  two commands.  \<^verbatim>\<open>init\<close> resolves a configuration and scaffolds a database directory from
  the templates of \<^verbatim>\<open>src/templates\<close>; \<^verbatim>\<open>build\<close> resolves the configuration, loads the user's
  schema module and calls the external builders \<^verbatim>\<open>Hyperschema\<close> and \<^verbatim>\<open>HyperDB\<close>.  Exceptions are
  values of type \<open>error\<close>; the file system, the working directory and the calls into the
  builders are an explicit \<open>world\<close> that every effectful function takes and returns.
  Console output is left out.
\<close>

section \<open>JavaScript values and objects\<close>

text \<open>
  The configuration handled by \<^verbatim>\<open>src/index.js\<close> is a plain JavaScript object whose
  properties are read with truthiness tests (\<^verbatim>\<open>config[field]\<close>, \<^verbatim>\<open>a || b\<close>).  Values are
  the JSON-like values the code meets: objects are association lists in insertion order,
  looked up with \<^const>\<open>map_of\<close>; numbers are integers (no claim depends on fractions).
\<close>

datatype jsval =
    JUndefined
  | JNull
  | JBool bool
  | JNum int
  | JStr string
  | JObj "(string \<times> jsval) list"

type_synonym jsobj = "(string \<times> jsval) list"

fun truthy :: "jsval \<Rightarrow> bool" where
  "truthy JUndefined = False"
| "truthy JNull = False"
| "truthy (JBool b) = b"
| "truthy (JNum n) = (n \<noteq> 0)"
| "truthy (JStr s) = (s \<noteq> [])"
| "truthy (JObj kvs) = True"

text \<open>\<^verbatim>\<open>a || b\<close>\<close>

definition js_or :: "jsval \<Rightarrow> jsval \<Rightarrow> jsval" where
  "js_or a b = (if truthy a then a else b)"

text \<open>\<^verbatim>\<open>obj[k]\<close> on an object: a missing property reads as \<^verbatim>\<open>undefined\<close>.\<close>

definition get_prop :: "jsobj \<Rightarrow> string \<Rightarrow> jsval" where
  "get_prop obj k = (case map_of obj k of None \<Rightarrow> JUndefined | Some v \<Rightarrow> v)"


text \<open>
  The calls that leave the program during a build: the dynamic import of the schema
  module, the two builders, and the two callbacks exported by the schema module.  A
  callback is named by the path its module was loaded from and the directories of the
  builder objects it is handed.
\<close>

datatype call =
    ImportSchemaModule string
  | Hyperschema_from string
  | CreateSchema string string
  | Hyperschema_toDisk string
  | HyperDB_from string string
  | CreateDatabase string string string
  | HyperDB_toDisk string string

datatype error =
    TypeError string
  | SyntaxError
  | ENOENT
  | ENOTDIR
  | EEXIST
  | EISDIR
  | MissingConfigFields "string list"
  | PackageJsonNotFound
  | SchemaDirectoryExists string
  | IndexFileExists string
  | DatabaseDirectoryNotFound string
  | ExternalError call

text \<open>
  \<^verbatim>\<open>v.k\<close> on an arbitrary value: reading a property of \<^verbatim>\<open>undefined\<close> or \<^verbatim>\<open>null\<close> throws a
  TypeError; on a primitive the property names read by this program
  (\<^verbatim>\<open>examples\<close>, \<^verbatim>\<open>type\<close>, \<^verbatim>\<open>dependencies\<close>, the dependency names) are not defined and read
  as \<^verbatim>\<open>undefined\<close>.
\<close>

fun js_member :: "jsval \<Rightarrow> string \<Rightarrow> error + jsval" where
  "js_member JUndefined k = Inl (TypeError ''Cannot read properties of undefined'')"
| "js_member JNull k = Inl (TypeError ''Cannot read properties of null'')"
| "js_member (JObj kvs) k = Inr (get_prop kvs k)"
| "js_member (JBool b) k = Inr JUndefined"
| "js_member (JNum n) k = Inr JUndefined"
| "js_member (JStr s) k = Inr JUndefined"

text \<open>Node validates the arguments of \<^verbatim>\<open>path\<close> and \<^verbatim>\<open>fs\<close> functions: a non-string throws.\<close>

fun as_path :: "jsval \<Rightarrow> error + string" where
  "as_path (JStr s) = Inr s"
| "as_path v = Inl (TypeError ''The path argument must be of type string'')"

section \<open>Node's POSIX \<^verbatim>\<open>path\<close> module\<close>

text \<open>
  \<^verbatim>\<open>path.isAbsolute\<close>, \<^verbatim>\<open>path.join\<close> and \<^verbatim>\<open>path.dirname\<close> of the Node runtime (POSIX
  flavour), which the program calls on every path it derives.  \<^verbatim>\<open>path_normalize\<close> is given on
  the list of \<^verbatim>\<open>/\<close>-separated segments: empty and \<^verbatim>\<open>.\<close> segments are dropped, \<^verbatim>\<open>..\<close> removes
  the segment before it (and is kept at the front of a relative path, dropped at the root).
\<close>

fun split_slash :: "string \<Rightarrow> string list" where
  "split_slash [] = [[]]"
| "split_slash (c # cs) =
     (if c = CHR ''/'' then [] # split_slash cs
      else (case split_slash cs of [] \<Rightarrow> [[c]] | s # ss \<Rightarrow> (c # s) # ss))"

fun join_slash :: "string list \<Rightarrow> string" where
  "join_slash [] = []"
| "join_slash [s] = s"
| "join_slash (s # t # ss) = s @ CHR ''/'' # join_slash (t # ss)"

definition norm_step :: "bool \<Rightarrow> string list \<Rightarrow> string \<Rightarrow> string list" where
  "norm_step allowAboveRoot st seg =
     (if seg = [] \<or> seg = ''.'' then st
      else if seg = ''..'' then
        (if st \<noteq> [] \<and> last st \<noteq> ''..'' then butlast st
         else if allowAboveRoot then st @ [''..'']
         else st)
      else st @ [seg])"

definition normalizeString :: "string list \<Rightarrow> bool \<Rightarrow> string list" where
  "normalizeString segs allowAboveRoot = foldl (norm_step allowAboveRoot) [] segs"

definition isAbsolute :: "string \<Rightarrow> bool" where
  "isAbsolute p = (p \<noteq> [] \<and> hd p = CHR ''/'')"

definition path_normalize :: "string \<Rightarrow> string" where
  "path_normalize p =
     (if p = [] then ''.''
      else
        let isAbs = (hd p = CHR ''/'');
            trailingSeparator = (last p = CHR ''/'');
            s = join_slash (normalizeString (split_slash p) (\<not> isAbs))
        in if s = [] then (if isAbs then ''/'' else if trailingSeparator then ''./'' else ''.'')
           else (if isAbs then ''/'' else []) @ s @ (if trailingSeparator then ''/'' else []))"

definition path_join :: "string list \<Rightarrow> string" where
  "path_join args =
     (let parts = filter (\<lambda>a. a \<noteq> []) args
      in if parts = [] then ''.'' else path_normalize (join_slash parts))"

text \<open>
  \<^verbatim>\<open>path.dirname\<close> scans from the end: trailing slashes are skipped, then the last segment,
  and the path is cut at the slash before it (index \<open>end\<close>).
\<close>

definition dirname :: "string \<Rightarrow> string" where
  "dirname p =
     (if p = [] then ''.''
      else
        let hasRoot = (hd p = CHR ''/'');
            r = dropWhile (\<lambda>c. c \<noteq> CHR ''/'') (dropWhile (\<lambda>c. c = CHR ''/'') (rev (tl p)))
        in if r = [] then (if hasRoot then ''/'' else ''.'')
           else if hasRoot \<and> length r = 1 then ''//''
           else take (length r) p)"

section \<open>The file system\<close>

text \<open>
  What a file holds is kept symbolic: the templates of \<^verbatim>\<open>src/templates\<close> by name and
  arguments, a JSON document by its value, a user-written ES module by what it exports.
\<close>

datatype content =
    ConfigFileTemplate
  | FunctionFileTemplate bool
  | SchemaFileTemplate bool
  | ExampleIndexFileTemplate string string jsval
  | Json jsval
  | ConfigModule jsobj
  | SchemaModule bool bool
  | Text string

datatype node = Dir | File content

text \<open>
  A loaded module is what the program reads of it: the path it was imported from, the own
  properties of its default export (none when there is no default export, as in the
  generated \<^verbatim>\<open>config.js\<close>, which exports the name \<^verbatim>\<open>config\<close>) and whether it exports
  \<^verbatim>\<open>createSchema\<close> and \<^verbatim>\<open>createDatabase\<close>.
\<close>

record module =
  loaded_from :: string
  default_props :: jsobj
  has_createSchema :: bool
  has_createDatabase :: bool

text \<open>
  A file system maps a key (the list of the names from the root \<open>[]\<close> down to an entry) to
  a node; there are no symbolic links and no permissions.  In a well-formed file system
  (\<open>wf_fs\<close>) the root is a directory and so is the parent of every entry.

  Two things are outside the program and are parameters of the world.  \<open>loader\<close> is the
  outcome of a dynamic \<^verbatim>\<open>import(p)\<close> in a given file system: whether a file loads depends
  on its syntax, on the package scope it lies in and on the form of the specifier.  \<open>ext\<close>
  is the behaviour of a call into the builders \<^verbatim>\<open>Hyperschema\<close> and \<^verbatim>\<open>HyperDB\<close> or into a
  callback of the schema module, given the calls made so far and the file system: whether
  it throws, and the file system it leaves (\<^verbatim>\<open>toDisk\<close> writes the generated code).
  \<open>trace\<close> records these calls in order.
\<close>

record world =
  cwd :: string
  files :: "string list \<rightharpoonup> node"
  trace :: "call list"
  loader :: "string \<Rightarrow> (string list \<rightharpoonup> node) \<Rightarrow> error + module"
  ext :: "call \<Rightarrow> call list \<Rightarrow> (string list \<rightharpoonup> node) \<Rightarrow> bool \<times> (string list \<rightharpoonup> node)"

type_synonym 'a io = "world \<Rightarrow> (error + 'a) \<times> world"

definition and_then :: "'a io \<Rightarrow> ('a \<Rightarrow> 'b io) \<Rightarrow> 'b io" where
  "and_then m k w = (case m w of (Inl e, w') \<Rightarrow> (Inl e, w') | (Inr x, w') \<Rightarrow> k x w')"

definition ebind :: "error + 'a \<Rightarrow> ('a \<Rightarrow> error + 'b) \<Rightarrow> error + 'b" where
  "ebind r k = (case r of Inl e \<Rightarrow> Inl e | Inr x \<Rightarrow> k x)"

definition wf_fs :: "(string list \<rightharpoonup> node) \<Rightarrow> bool" where
  "wf_fs fs \<longleftrightarrow> fs [] = Some Dir \<and> (\<forall>k. k \<noteq> [] \<and> fs k \<noteq> None \<longrightarrow> fs (butlast k) = Some Dir)"

text \<open>
  The lexical normal form of a path, as \<^verbatim>\<open>path.resolve\<close> computes it against a working
  directory: the key at which the path is found if it is found at all.  It serves to state
  properties; the file operations below resolve a path the way the operating system does.
\<close>

definition fs_resolve :: "string \<Rightarrow> string \<Rightarrow> string list" where
  "fs_resolve wd p =
     normalizeString (split_slash (if isAbsolute p then p else wd @ ''/'' @ p)) False"

text \<open>
  The operating system resolves a path one component at a time: every directory on the
  way must exist before the next component is looked at, also when that component is
  \<^verbatim>\<open>..\<close>.  A relative path starts at the working directory, an absolute one at the root;
  a trailing slash asks for a directory.  \<open>walk\<close> follows the components from the
  directory \<open>cur\<close> and returns the key it arrives at, which need not exist.
\<close>

definition components :: "string \<Rightarrow> string list" where
  "components p = filter (\<lambda>s. s \<noteq> []) (split_slash p)"

definition step :: "string list \<Rightarrow> string \<Rightarrow> string list" where
  "step cur c = (if c = ''.'' then cur else if c = ''..'' then butlast cur else cur @ [c])"

fun walk :: "(string list \<rightharpoonup> node) \<Rightarrow> string list \<Rightarrow> string list \<Rightarrow> error + string list" where
  "walk fs cur [] = Inr cur"
| "walk fs cur (c # cs) =
     (case fs cur of
        Some Dir \<Rightarrow> walk fs (step cur c) cs
      | Some (File x) \<Rightarrow> Inl ENOTDIR
      | None \<Rightarrow> Inl ENOENT)"

definition start :: "world \<Rightarrow> string \<Rightarrow> string list" where
  "start w p = (if isAbsolute p then [] else normalizeString (split_slash (cwd w)) False)"

definition os_resolve :: "world \<Rightarrow> string \<Rightarrow> error + string list" where
  "os_resolve w p =
     (if p = [] then Inl ENOENT
      else walk (files w) (start w p)
             (components p @ (if last p = CHR ''/'' then [''.''] else [])))"

text \<open>\<^verbatim>\<open>fs.access(p)\<close>\<close>

definition access :: "world \<Rightarrow> string \<Rightarrow> error + unit" where
  "access w p =
     (case os_resolve w p of
        Inl e \<Rightarrow> Inl e
      | Inr k \<Rightarrow> if files w k \<noteq> None then Inr () else Inl ENOENT)"

text \<open>\<^verbatim>\<open>fs.readFile(p)\<close>\<close>

definition readFile :: "world \<Rightarrow> string \<Rightarrow> error + content" where
  "readFile w p =
     (case os_resolve w p of
        Inl e \<Rightarrow> Inl e
      | Inr k \<Rightarrow>
          (case files w k of
             Some (File c) \<Rightarrow> Inr c
           | Some Dir \<Rightarrow> Inl EISDIR
           | None \<Rightarrow> Inl ENOENT))"

text \<open>
  The directory in which the last component of a path is created: every component before
  the last is walked, and the directory arrived at must exist.
\<close>

definition parent_of :: "world \<Rightarrow> string \<Rightarrow> error + string list" where
  "parent_of w p =
     (case walk (files w) (start w p) (butlast (components p)) of
        Inl e \<Rightarrow> Inl e
      | Inr cur \<Rightarrow>
          (case files w cur of
             Some Dir \<Rightarrow> Inr cur
           | Some (File x) \<Rightarrow> Inl ENOTDIR
           | None \<Rightarrow> Inl ENOENT))"

text \<open>\<^verbatim>\<open>fs.writeFile(p, c)\<close>: creates or replaces the file; its directory must exist.\<close>

definition writeFile :: "jsval \<Rightarrow> content \<Rightarrow> unit io" where
  "writeFile pv c w =
     (case as_path pv of
        Inl e \<Rightarrow> (Inl e, w)
      | Inr p \<Rightarrow>
          if p = [] then (Inl ENOENT, w)
          else if components p = [] then (Inl EISDIR, w)
          else (case parent_of w p of
                  Inl e \<Rightarrow> (Inl e, w)
                | Inr cur \<Rightarrow>
                    let k = step cur (last (components p))
                    in if files w k = Some Dir then (Inl EISDIR, w)
                       else (Inr (), w\<lparr>files := (files w)(k \<mapsto> File c)\<rparr>)))"

text \<open>\<^verbatim>\<open>fs.mkdir(p)\<close>\<close>

definition mkdir :: "jsval \<Rightarrow> unit io" where
  "mkdir pv w =
     (case as_path pv of
        Inl e \<Rightarrow> (Inl e, w)
      | Inr p \<Rightarrow>
          if p = [] then (Inl ENOENT, w)
          else if components p = [] then (Inl EEXIST, w)
          else (case parent_of w p of
                  Inl e \<Rightarrow> (Inl e, w)
                | Inr cur \<Rightarrow>
                    let k = step cur (last (components p))
                    in if files w k \<noteq> None then (Inl EEXIST, w)
                       else (Inr (), w\<lparr>files := (files w)(k \<mapsto> Dir)\<rparr>)))"

text \<open>
  \<^verbatim>\<open>fs.mkdir(p, { recursive: true })\<close>: every missing directory on the way to \<open>p\<close> is
  created, component by component, so a missing directory that the path leaves again
  through \<^verbatim>\<open>..\<close> is created as well; an existing directory at \<open>p\<close> is not an error.  The
  directories created before a failure stay.
\<close>

fun mkdirp :: "(string list \<rightharpoonup> node) \<Rightarrow> string list \<Rightarrow> string list
     \<Rightarrow> (error + unit) \<times> (string list \<rightharpoonup> node)" where
  "mkdirp fs cur [] =
     (case fs cur of
        Some Dir \<Rightarrow> (Inr (), fs)
      | Some (File x) \<Rightarrow> (Inl EEXIST, fs)
      | None \<Rightarrow> (Inl ENOENT, fs))"
| "mkdirp fs cur (c # cs) =
     (case fs cur of
        Some Dir \<Rightarrow>
          (if fs (step cur c) = None then mkdirp (fs(step cur c \<mapsto> Dir)) (step cur c) cs
           else mkdirp fs (step cur c) cs)
      | Some (File x) \<Rightarrow> (Inl ENOTDIR, fs)
      | None \<Rightarrow> (Inl ENOENT, fs))"

definition mkdir_recursive :: "jsval \<Rightarrow> unit io" where
  "mkdir_recursive pv w =
     (case as_path pv of
        Inl e \<Rightarrow> (Inl e, w)
      | Inr p \<Rightarrow>
          if p = [] then (Inl ENOENT, w)
          else (case mkdirp (files w) (start w p) (components p) of
                  (r, fs') \<Rightarrow> (r, w\<lparr>files := fs'\<rparr>)))"

text \<open>The helper \<^verbatim>\<open>exists\<close> of \<^verbatim>\<open>src/index.js\<close>: only ENOENT means "no", anything else is rethrown.\<close>

definition exists :: "world \<Rightarrow> jsval \<Rightarrow> error + bool" where
  "exists w pv =
     (case as_path pv of
        Inl e \<Rightarrow> Inl e
      | Inr filepath \<Rightarrow>
          (case access w filepath of
             Inr u \<Rightarrow> Inr True
           | Inl e \<Rightarrow> if e = ENOENT then Inr False else Inl e))"

text \<open>
  \<^verbatim>\<open>JSON.parse\<close> of a file's text, and the dynamic \<^verbatim>\<open>import()\<close> of a path, whose outcome is
  the world's \<open>loader\<close>.
\<close>

fun json_parse :: "content \<Rightarrow> error + jsval" where
  "json_parse (Json v) = Inr v"
| "json_parse c = Inl SyntaxError"

definition import_module :: "world \<Rightarrow> string \<Rightarrow> error + module" where
  "import_module w p =
     (case loader w p (files w) of
        Inl e \<Rightarrow> Inl e
      | Inr m \<Rightarrow> Inr (m\<lparr>loaded_from := p\<rparr>))"

section \<open>The class \<^verbatim>\<open>HyperdbHelper\<close> of \<^verbatim>\<open>src/index.js\<close>\<close>

definition defaultConfig :: jsobj where
  "defaultConfig =
     [(''databaseConfigDirectory'', JStr ''./database''),
      (''generatedCodeDirectory'', JStr ''./generated''),
      (''functionsFilepath'', JStr ''./functions.js''),
      (''schemaFilepath'', JStr ''./schema.js''),
      (''configFilepath'', JStr ''./config.js''),
      (''projectPackageJsonFilepath'', JStr ''./package.json''),
      (''package'', JObj [])]"

text \<open>
  The fields of an instance.  \<^verbatim>\<open>{ ...a, ...b }\<close> is \<^const>\<open>AList.merge\<close>: the properties of
  \<open>b\<close> are written over those of \<open>a\<close>.
\<close>

record helper =
  this_config :: jsobj
  this_requiredDependencies :: "string list"

definition HyperdbHelper :: "jsobj \<Rightarrow> helper" where
  "HyperdbHelper options =
     \<lparr>this_config = AList.merge defaultConfig options,
      this_requiredDependencies = [''hyperschema'', ''hyperdb'', ''corestore'']\<rparr>"

text \<open>
  The namespace imported as \<^verbatim>\<open>templates\<close>.  \<^verbatim>\<open>src/index.js\<close> calls
  \<^verbatim>\<open>templates.packageJsonTemplate\<close>; an export that the module does not define reads as
  \<^verbatim>\<open>undefined\<close>, and calling it throws a TypeError.  \<open>basic_js\<close> is the namespace of
  \<^verbatim>\<open>src/templates/basic.js\<close>, which exports \<^verbatim>\<open>configFileTemplate\<close>, \<^verbatim>\<open>schemaFileTemplate\<close> and
  \<^verbatim>\<open>functionFileTemplate\<close> only.
\<close>

record templates =
  packageJsonTemplate :: "(string \<Rightarrow> string \<Rightarrow> content) option"

definition basic_js :: templates where
  "basic_js = \<lparr>packageJsonTemplate = None\<rparr>"

text \<open>
  The directory argument is a string or absent (\<^verbatim>\<open>undefined\<close>, as when the command line has
  none), in which case the parameter default \<^verbatim>\<open>./database\<close> applies; \<open>wd\<close> is \<^verbatim>\<open>process.cwd()\<close>.
\<close>

definition getDatabaseConfigDirectory :: "string \<Rightarrow> string option \<Rightarrow> string" where
  "getDatabaseConfigDirectory wd arg =
     (let databaseFilepathArgument = (case arg of None \<Rightarrow> ''./database'' | Some a \<Rightarrow> a)
      in if isAbsolute databaseFilepathArgument then databaseFilepathArgument
         else path_join [wd, databaseFilepathArgument])"

definition getFilepathFromConfig :: "jsobj \<Rightarrow> string \<Rightarrow> string \<Rightarrow> error + string" where
  "getFilepathFromConfig config configProperty defaultFilepath =
     ebind (as_path (js_or (get_prop config configProperty) (JStr defaultFilepath))) (\<lambda>filepath.
       if isAbsolute filepath then Inr filepath
       else ebind (as_path (get_prop config ''databaseConfigDirectory'')) (\<lambda>d.
              Inr (path_join [d, filepath])))"

definition getPackageJson :: "world \<Rightarrow> string \<Rightarrow> error + jsval" where
  "getPackageJson w dir =
     (let packageJsonFilepath = path_join [dir, ''package.json'']
      in ebind (exists w (JStr packageJsonFilepath)) (\<lambda>found.
           if \<not> found then Inr JUndefined
           else ebind (readFile w packageJsonFilepath) json_parse))"

definition getConfig :: "world \<Rightarrow> string \<Rightarrow> error + jsobj" where
  "getConfig w configFilepath =
     ebind (import_module w configFilepath) (\<lambda>m. Inr (default_props m))"

text \<open>The user configuration as \<^verbatim>\<open>mergeConfig\<close> loads it: any failure leaves \<^verbatim>\<open>{}\<close>.\<close>

definition loadUserConfig :: "world \<Rightarrow> string option \<Rightarrow> jsobj" where
  "loadUserConfig w filepath =
     (let databaseConfigDirectory = getDatabaseConfigDirectory (cwd w) filepath;
          configFilepath = path_join [databaseConfigDirectory, ''config.js'']
      in case getConfig w configFilepath of Inl e \<Rightarrow> [] | Inr c \<Rightarrow> c)"

text \<open>
  The assignments of \<^verbatim>\<open>mergeConfig\<close>, each followed by the rest of the function \<open>k\<close>:
  \<^verbatim>\<open>config.key = getFilepathFromConfig(config, configProperty, defaultFilepath)\<close>,
  \<^verbatim>\<open>config.key = path.join(config.base, name)\<close>, the guarded
  \<^verbatim>\<open>try { config.package = await getPackageJson(process.cwd()) } catch (error) {}\<close> and the
  conditional \<^verbatim>\<open>config.moduleType = config.package.type || 'commonjs'\<close>.
\<close>

definition set_path :: "string \<Rightarrow> string \<Rightarrow> string \<Rightarrow> jsobj \<Rightarrow> (jsobj \<Rightarrow> error + jsobj) \<Rightarrow> error + jsobj" where
  "set_path key configProperty defaultFilepath config k =
     ebind (getFilepathFromConfig config configProperty defaultFilepath) (\<lambda>p.
       k (AList.update key (JStr p) config))"

definition set_joined :: "string \<Rightarrow> string \<Rightarrow> string \<Rightarrow> jsobj \<Rightarrow> (jsobj \<Rightarrow> error + jsobj) \<Rightarrow> error + jsobj" where
  "set_joined key base name config k =
     ebind (as_path (get_prop config base)) (\<lambda>b.
       k (AList.update key (JStr (path_join [b, name])) config))"

definition set_package :: "world \<Rightarrow> jsobj \<Rightarrow> jsobj" where
  "set_package w config =
     (case getPackageJson w (cwd w) of
        Inl e \<Rightarrow> config
      | Inr pkg \<Rightarrow> AList.update ''package'' pkg config)"

definition set_moduleType :: "jsobj \<Rightarrow> error + jsobj" where
  "set_moduleType config =
     (if truthy (get_prop config ''package'')
      then ebind (js_member (get_prop config ''package'') ''type'') (\<lambda>t.
             Inr (AList.update ''moduleType'' (js_or t (JStr ''commonjs'')) config))
      else Inr config)"

definition mergeConfig :: "world \<Rightarrow> string option \<Rightarrow> jsval \<Rightarrow> error + jsobj" where
  "mergeConfig w filepath options =
     (let databaseConfigDirectory = getDatabaseConfigDirectory (cwd w) filepath;
          userConfig = loadUserConfig w filepath;
          config = AList.update ''databaseConfigDirectory'' (JStr databaseConfigDirectory)
                     (AList.merge defaultConfig userConfig)
      in ebind (js_member options ''examples'') (\<lambda>examples.
         set_path ''functionsFilepath'' ''functionsFilepath'' ''./functions.js''
           (AList.update ''examples'' examples config) (\<lambda>config.
         set_path ''schemaFilepath'' ''schemaFilepath'' ''./schema.js'' config (\<lambda>config.
         set_path ''configFilepath'' ''configFilepath'' ''./config.js'' config (\<lambda>config.
         set_path ''projectPackageJsonFilepath'' ''projectPackageJsonFilepath'' ''./package.json''
           config (\<lambda>config.
         set_joined ''databaseConfigJsonFilepath'' ''databaseConfigDirectory'' ''package.json''
           config (\<lambda>config.
         set_path ''generatedCodeDirectory'' ''generatedCodeDirectory'' ''./generated'' config (\<lambda>config.
         set_joined ''generatedPackageJsonFilepath'' ''generatedCodeDirectory'' ''package.json''
           config (\<lambda>config.
         set_joined ''hyperschemaDirectory'' ''generatedCodeDirectory'' ''schemas'' config (\<lambda>config.
         set_joined ''hyperdbDirectory'' ''generatedCodeDirectory'' ''database'' config (\<lambda>config.
         set_moduleType (set_package w config))))))))))))"

definition required :: "string list" where
  "required =
     [''databaseConfigDirectory'', ''generatedCodeDirectory'',
      ''functionsFilepath'', ''schemaFilepath'', ''configFilepath'',
      ''projectPackageJsonFilepath'', ''databaseConfigJsonFilepath'',
      ''generatedPackageJsonFilepath'',
      ''hyperschemaDirectory'', ''hyperdbDirectory'',
      ''moduleType'']"

definition validateConfig :: "jsobj \<Rightarrow> error + unit" where
  "validateConfig config =
     (let missing = filter (\<lambda>field. \<not> truthy (get_prop config field)) required
      in if length missing > 0 then Inl (MissingConfigFields missing) else Inr ())"

definition lift :: "error + 'a \<Rightarrow> 'a io" where
  "lift r w = (r, w)"

definition createConfigFile :: "jsobj \<Rightarrow> unit io" where
  "createConfigFile config = writeFile (get_prop config ''configFilepath'') ConfigFileTemplate"

definition createFunctionsFile :: "jsobj \<Rightarrow> unit io" where
  "createFunctionsFile config =
     writeFile (get_prop config ''functionsFilepath'')
       (FunctionFileTemplate (truthy (get_prop config ''examples'')))"

definition createSchemaFile :: "jsobj \<Rightarrow> unit io" where
  "createSchemaFile config =
     writeFile (get_prop config ''schemaFilepath'')
       (SchemaFileTemplate (truthy (get_prop config ''examples'')))"

definition createDatabaseConfigPackageJsonFile :: "templates \<Rightarrow> jsobj \<Rightarrow> unit io" where
  "createDatabaseConfigPackageJsonFile tpl config =
     and_then (lift (as_path (get_prop config ''databaseConfigDirectory''))) (\<lambda>d.
       let mainIndex = path_join [d, ''package.json'']
       in case packageJsonTemplate tpl of
            None \<Rightarrow> lift (Inl (TypeError ''templates.packageJsonTemplate is not a function''))
          | Some f \<Rightarrow>
              writeFile (get_prop config ''databaseConfigJsonFilepath'') (f mainIndex ''module''))"

definition createGeneratedPackageJsonFile :: "templates \<Rightarrow> jsobj \<Rightarrow> unit io" where
  "createGeneratedPackageJsonFile tpl config =
     and_then (lift (as_path (get_prop config ''hyperdbDirectory''))) (\<lambda>d.
       let mainIndex = path_join [d, ''package.json'']
       in case packageJsonTemplate tpl of
            None \<Rightarrow> lift (Inl (TypeError ''templates.packageJsonTemplate is not a function''))
          | Some f \<Rightarrow>
              writeFile (get_prop config ''generatedPackageJsonFilepath'') (f mainIndex ''commonjs''))"

text \<open>
  The example \<^verbatim>\<open>index.js\<close> embeds \<^verbatim>\<open>path.relative(projectDirectory, definitionsFilepath)\<close>;
  the content keeps the two arguments.
\<close>

definition createExampleIndexFile :: "jsobj \<Rightarrow> string \<Rightarrow> unit io" where
  "createExampleIndexFile config indexFilepath =
     and_then (lift (as_path (get_prop config ''hyperdbDirectory''))) (\<lambda>h.
     and_then (lift (as_path (get_prop config ''databaseConfigDirectory''))) (\<lambda>d.
       let definitionsFilepath = path_join [h, ''index.js''];
           projectDirectory = dirname d
       in writeFile (JStr indexFilepath)
            (ExampleIndexFileTemplate projectDirectory definitionsFilepath
               (get_prop config ''moduleType''))))"

definition exampleIndexFilepath :: "string \<Rightarrow> string" where
  "exampleIndexFilepath databaseConfigDirectory =
     path_join [dirname databaseConfigDirectory, ''index.js'']"

definition createDefaultFiles :: "templates \<Rightarrow> jsobj \<Rightarrow> unit io" where
  "createDefaultFiles tpl config =
     and_then (\<lambda>w. (exists w (get_prop config ''databaseConfigDirectory''), w)) (\<lambda>found.
     and_then (lift (as_path (get_prop config ''databaseConfigDirectory''))) (\<lambda>d.
       if found then lift (Inl (SchemaDirectoryExists d))
       else
         and_then
           (\<lambda>w. if truthy (get_prop config ''examples'')
                then (case exists w (JStr (exampleIndexFilepath d)) of
                        Inl e \<Rightarrow> (Inl e, w)
                      | Inr found' \<Rightarrow>
                          if found' then (Inl (IndexFileExists (exampleIndexFilepath d)), w)
                          else (Inr (), w))
                else (Inr (), w)) (\<lambda>u.
         and_then (mkdir_recursive (get_prop config ''databaseConfigDirectory'')) (\<lambda>u.
         and_then (createConfigFile config) (\<lambda>u.
         and_then (createFunctionsFile config) (\<lambda>u.
         and_then (createSchemaFile config) (\<lambda>u.
         and_then (mkdir (get_prop config ''generatedCodeDirectory'')) (\<lambda>u.
         and_then (createDatabaseConfigPackageJsonFile tpl config) (\<lambda>u.
         and_then (createGeneratedPackageJsonFile tpl config) (\<lambda>u.
           if truthy (get_prop config ''examples'')
           then createExampleIndexFile config (exampleIndexFilepath d)
           else lift (Inr ())))))))))))"

text \<open>The loop of \<^verbatim>\<open>checkPackageDependencies\<close>, pushing onto \<^verbatim>\<open>toInstall\<close>.\<close>

fun missing_loop :: "jsval \<Rightarrow> string list \<Rightarrow> string list \<Rightarrow> error + string list" where
  "missing_loop dependencies [] toInstall = Inr toInstall"
| "missing_loop dependencies (dependency # rest) toInstall =
     ebind (js_member dependencies dependency) (\<lambda>v.
       missing_loop dependencies rest
         (if \<not> truthy v then toInstall @ [dependency] else toInstall))"

definition checkPackageDependencies :: "helper \<Rightarrow> error + string list" where
  "checkPackageDependencies this =
     (if \<not> truthy (get_prop (this_config this) ''package'')
      then Inr (this_requiredDependencies this)
      else ebind (js_member (get_prop (this_config this) ''package'') ''dependencies'') (\<lambda>deps.
             missing_loop (js_or deps (JObj [])) (this_requiredDependencies this) []))"

text \<open>
  \<^verbatim>\<open>init\<close> assigns the merged configuration to \<^verbatim>\<open>this.config\<close> and works on it; the result
  is the field \<^verbatim>\<open>dependenciesNeeded\<close>.
\<close>

definition init :: "templates \<Rightarrow> helper \<Rightarrow> string option \<Rightarrow> jsval \<Rightarrow> string list io" where
  "init tpl this filepath options =
     and_then (\<lambda>w. (mergeConfig w filepath options, w)) (\<lambda>config.
     and_then (lift (validateConfig config)) (\<lambda>u.
     and_then (\<lambda>w. (exists w (JStr ''./package.json''), w)) (\<lambda>found.
       if \<not> found then lift (Inl PackageJsonNotFound)
       else
         and_then (createDefaultFiles tpl config) (\<lambda>u.
           lift (checkPackageDependencies (this\<lparr>this_config := config\<rparr>))))))"

section \<open>Building\<close>

text \<open>
  A call into an external builder or a callback: it is recorded, the file system becomes
  what the call leaves, and the call may throw.
\<close>

definition external :: "call \<Rightarrow> unit io" where
  "external c w =
     (case ext w c (trace w) (files w) of
        (thrown, fs') \<Rightarrow>
          (if thrown then Inl (ExternalError c) else Inr (),
           w\<lparr>trace := trace w @ [c], files := fs'\<rparr>))"

definition getSchemaDefinitions :: "jsval \<Rightarrow> module io" where
  "getSchemaDefinitions schemaFilepath =
     and_then (lift (as_path schemaFilepath)) (\<lambda>p w.
       (import_module w p, w\<lparr>trace := trace w @ [ImportSchemaModule p]\<rparr>))"

definition buildSchema :: "jsobj \<Rightarrow> module \<Rightarrow> unit io" where
  "buildSchema config schemaModule =
     and_then (lift (as_path (get_prop config ''hyperschemaDirectory''))) (\<lambda>hs.
     and_then (external (Hyperschema_from hs)) (\<lambda>u.
     and_then (if has_createSchema schemaModule
               then external (CreateSchema (loaded_from schemaModule) hs)
               else lift (Inl (TypeError ''schemaModule.createSchema is not a function''))) (\<lambda>u.
     and_then (external (Hyperschema_toDisk hs)) (\<lambda>u.
     and_then (lift (as_path (get_prop config ''hyperdbDirectory''))) (\<lambda>hdb.
     and_then (external (HyperDB_from hs hdb)) (\<lambda>u.
     and_then (if has_createDatabase schemaModule
               then external (CreateDatabase (loaded_from schemaModule) hs hdb)
               else lift (Inl (TypeError ''schemaModule.createDatabase is not a function''))) (\<lambda>u.
     external (HyperDB_toDisk hs hdb))))))))"

definition build :: "string option \<Rightarrow> jsval \<Rightarrow> unit io" where
  "build filepath options =
     and_then (\<lambda>w. (mergeConfig w filepath options, w)) (\<lambda>config.
     and_then (\<lambda>w. (exists w (get_prop config ''databaseConfigDirectory''), w)) (\<lambda>found.
       if \<not> found
       then and_then (lift (as_path (get_prop config ''databaseConfigDirectory''))) (\<lambda>d.
              lift (Inl (DatabaseDirectoryNotFound d)))
       else
         and_then (getSchemaDefinitions (get_prop config ''schemaFilepath'')) (\<lambda>schemaDefinitions.
           buildSchema config schemaDefinitions)))"

section \<open>Notions used to state the properties\<close>

text \<open>
  The value a path key is configured with: the user's value when it is truthy, else the
  default path.
\<close>

definition configured :: "jsobj \<Rightarrow> string \<Rightarrow> string \<Rightarrow> jsval" where
  "configured userConfig key dflt =
     (if truthy (get_prop userConfig key) then get_prop userConfig key else JStr dflt)"

text \<open>A path made absolute against a base directory.\<close>

definition resolved :: "string \<Rightarrow> string \<Rightarrow> string" where
  "resolved base p = (if isAbsolute p then p else path_join [base, p])"

text \<open>
  The entry of a name in a manifest's \<^verbatim>\<open>dependencies\<close> map (\<^verbatim>\<open>undefined\<close> when there is
  no such map or no such key), and the keys of that map.
\<close>

definition dependency_entry :: "jsval \<Rightarrow> string \<Rightarrow> jsval" where
  "dependency_entry pkg name =
     (case pkg of
        JObj kvs \<Rightarrow> (case get_prop kvs ''dependencies'' of
                       JObj deps \<Rightarrow> get_prop deps name
                     | _ \<Rightarrow> JUndefined)
      | _ \<Rightarrow> JUndefined)"

definition dependency_keys :: "jsval \<Rightarrow> string list" where
  "dependency_keys pkg =
     (case pkg of
        JObj kvs \<Rightarrow> (case get_prop kvs ''dependencies'' of
                       JObj deps \<Rightarrow> map fst deps
                     | _ \<Rightarrow> [])
      | _ \<Rightarrow> [])"

text \<open>The required names that are not keys of the manifest's dependencies map.\<close>

definition not_dependency_keys :: "jsval \<Rightarrow> string list \<Rightarrow> string list" where
  "not_dependency_keys pkg names = filter (\<lambda>name. name \<notin> set (dependency_keys pkg)) names"

text \<open>A segment of a normalised absolute path.\<close>

definition good :: "string \<Rightarrow> bool" where
  "good seg \<longleftrightarrow> seg \<noteq> [] \<and> seg \<noteq> ''.'' \<and> seg \<noteq> ''..'' \<and> CHR ''/'' \<notin> set seg"

text \<open>The keys that \<^verbatim>\<open>mergeConfig\<close> assigns after the spread of defaults and user configuration.\<close>

definition assigned_keys :: "string list" where
  "assigned_keys =
     [''databaseConfigDirectory'', ''examples'', ''functionsFilepath'', ''schemaFilepath'',
      ''configFilepath'', ''projectPackageJsonFilepath'', ''databaseConfigJsonFilepath'',
      ''generatedCodeDirectory'', ''generatedPackageJsonFilepath'', ''hyperschemaDirectory'',
      ''hyperdbDirectory'', ''package'', ''moduleType'']"

text \<open>
  The calls of a complete build, in order: the load of the schema module at
  \<open>schemaFilepath\<close>, the schema builder with that module's \<^verbatim>\<open>createSchema\<close>, the database
  builder with that module's \<^verbatim>\<open>createDatabase\<close>.
\<close>

definition schema_calls :: "string \<Rightarrow> string \<Rightarrow> call list" where
  "schema_calls schemaFilepath hs =
     [Hyperschema_from hs, CreateSchema schemaFilepath hs, Hyperschema_toDisk hs]"

definition database_calls :: "string \<Rightarrow> string \<Rightarrow> string \<Rightarrow> call list" where
  "database_calls schemaFilepath hs hdb =
     [HyperDB_from hs hdb, CreateDatabase schemaFilepath hs hdb, HyperDB_toDisk hs hdb]"

definition build_sequence :: "string \<Rightarrow> string \<Rightarrow> string \<Rightarrow> call list" where
  "build_sequence schemaFilepath hs hdb =
     ImportSchemaModule schemaFilepath
       # schema_calls schemaFilepath hs @ database_calls schemaFilepath hs hdb"

text \<open>
  To run a list of calls: each call in turn, what it leaves in the file system kept for
  the next one, until a call throws.
\<close>

fun run_calls :: "call list \<Rightarrow> unit io" where
  "run_calls [] w = (Inr (), w)"
| "run_calls (c # cs) w =
     (case ext w c (trace w) (files w) of
        (thrown, fs') \<Rightarrow>
          if thrown then (Inl (ExternalError c), w\<lparr>trace := trace w @ [c], files := fs'\<rparr>)
          else run_calls cs (w\<lparr>trace := trace w @ [c], files := fs'\<rparr>))"

text \<open>\<open>throws m\<close>: \<open>m\<close> never returns normally.\<close>

definition throws :: "'a io \<Rightarrow> bool" where
  "throws m \<longleftrightarrow> (\<forall>w. \<exists>e. fst (m w) = Inl e)"

section \<open>Example projects\<close>

text \<open>A manifest that lists all three packages, one of them with the empty version range.\<close>

definition manifest_empty_range :: jsval where
  "manifest_empty_range =
     JObj [(''name'', JStr ''app''),
           (''dependencies'',
            JObj [(''hyperschema'', JStr ''^1.0.0''),
                  (''hyperdb'', JStr []),
                  (''corestore'', JStr ''^7.0.0'')])]"

text \<open>The flags object of a plain invocation, and with \<^verbatim>\<open>--examples\<close>.\<close>

definition flags_plain :: jsval where
  "flags_plain = JObj [(''examples'', JBool False), (''e'', JBool False)]"


text \<open>
  A loader for the examples: the file at an absolute path loads according to its content;
  the templates and the symbolic modules load, anything else is a syntax error.
\<close>

fun load_content :: "content \<Rightarrow> error + module" where
  "load_content ConfigFileTemplate =
     Inr \<lparr>loaded_from = [], default_props = [], has_createSchema = False,
          has_createDatabase = False\<rparr>"
| "load_content (FunctionFileTemplate ex) =
     Inr \<lparr>loaded_from = [], default_props = [], has_createSchema = False,
          has_createDatabase = False\<rparr>"
| "load_content (SchemaFileTemplate ex) =
     Inr \<lparr>loaded_from = [], default_props = [], has_createSchema = True,
          has_createDatabase = True\<rparr>"
| "load_content (ConfigModule obj) =
     Inr \<lparr>loaded_from = [], default_props = obj, has_createSchema = False,
          has_createDatabase = False\<rparr>"
| "load_content (SchemaModule s d) =
     Inr \<lparr>loaded_from = [], default_props = [], has_createSchema = s,
          has_createDatabase = d\<rparr>"
| "load_content c = Inl SyntaxError"

definition plain_loader :: "string \<Rightarrow> (string list \<rightharpoonup> node) \<Rightarrow> error + module" where
  "plain_loader p fs =
     (case walk fs [] (components p) of
        Inl e \<Rightarrow> Inl e
      | Inr k \<Rightarrow>
          (case fs k of
             Some (File c) \<Rightarrow> load_content c
           | Some Dir \<Rightarrow> Inl EISDIR
           | None \<Rightarrow> Inl ENOENT))"

text \<open>
  Builders for the examples.  \<open>quiet_ext\<close>: no call throws and none touches the file
  system.  \<open>disk_ext\<close>: no call throws, and each \<^verbatim>\<open>toDisk\<close> writes an \<^verbatim>\<open>index.js\<close> into its
  directory, which it creates when missing.  \<open>failing_ext\<close>: as \<open>disk_ext\<close>, but the
  callback \<^verbatim>\<open>createDatabase\<close> throws.
\<close>

definition quiet_ext :: "call \<Rightarrow> call list \<Rightarrow> (string list \<rightharpoonup> node) \<Rightarrow> bool \<times> (string list \<rightharpoonup> node)" where
  "quiet_ext c tr fs = (False, fs)"

definition write_index :: "(string list \<rightharpoonup> node) \<Rightarrow> string \<Rightarrow> content \<Rightarrow> (string list \<rightharpoonup> node)" where
  "write_index fs d c =
     (case mkdirp fs [] (components d) of
        (Inr u, fs') \<Rightarrow> fs'(foldl step [] (components d) @ [''index.js''] \<mapsto> File c)
      | (Inl e, fs') \<Rightarrow> fs')"

definition disk_ext :: "call \<Rightarrow> call list \<Rightarrow> (string list \<rightharpoonup> node) \<Rightarrow> bool \<times> (string list \<rightharpoonup> node)" where
  "disk_ext c tr fs =
     (case c of
        Hyperschema_toDisk hs \<Rightarrow> (False, write_index fs hs (Text ''schema code''))
      | HyperDB_toDisk hs hdb \<Rightarrow> (False, write_index fs hdb (Text ''database code''))
      | _ \<Rightarrow> (False, fs))"

definition failing_ext :: "call \<Rightarrow> call list \<Rightarrow> (string list \<rightharpoonup> node) \<Rightarrow> bool \<times> (string list \<rightharpoonup> node)" where
  "failing_ext c tr fs =
     (case c of
        CreateDatabase sf hs hdb \<Rightarrow> (True, fs)
      | _ \<Rightarrow> disk_ext c tr fs)"

text \<open>A project directory \<^verbatim>\<open>/proj\<close> holding only its manifest.\<close>

definition fresh_project :: world where
  "fresh_project =
     \<lparr>cwd = ''/proj'',
      files = [[] \<mapsto> Dir,
               [''proj''] \<mapsto> Dir,
               [''proj'', ''package.json''] \<mapsto> File (Json (JObj [(''name'', JStr ''app'')]))],
      trace = [],
      loader = plain_loader,
      ext = quiet_ext\<rparr>"

text \<open>
  A project whose \<^verbatim>\<open>db/config.js\<close> default-exports a configuration: a relative and an
  absolute path, and a \<^verbatim>\<open>package\<close> entry of its own.
\<close>

definition configured_project :: world where
  "configured_project =
     \<lparr>cwd = ''/proj'',
      files = [[] \<mapsto> Dir,
               [''proj''] \<mapsto> Dir,
               [''proj'', ''package.json''] \<mapsto>
                 File (Json (JObj [(''name'', JStr ''app''), (''type'', JStr ''module'')])),
               [''proj'', ''db''] \<mapsto> Dir,
               [''proj'', ''db'', ''config.js''] \<mapsto>
                 File (ConfigModule
                         [(''functionsFilepath'', JStr ''lib/fns.js''),
                          (''schemaFilepath'', JStr ''/srv/schema.js''),
                          (''package'', JObj [(''name'', JStr ''mine'')]),
                          (''theme'', JStr ''dark'')])],
      trace = [],
      loader = plain_loader,
      ext = quiet_ext\<rparr>"

text \<open>What \<^verbatim>\<open>mergeConfig\<close> returns for \<open>configured_project\<close> and the directory \<^verbatim>\<open>db\<close>.\<close>

definition merged_configured :: jsobj where
  "merged_configured =
     [(''databaseConfigDirectory'', JStr ''/proj/db''),
      (''generatedCodeDirectory'', JStr ''/proj/db/generated''),
      (''functionsFilepath'', JStr ''/proj/db/lib/fns.js''),
      (''schemaFilepath'', JStr ''/srv/schema.js''),
      (''configFilepath'', JStr ''/proj/db/config.js''),
      (''projectPackageJsonFilepath'', JStr ''/proj/db/package.json''),
      (''package'', JObj [(''name'', JStr ''app''), (''type'', JStr ''module'')]),
      (''theme'', JStr ''dark''),
      (''examples'', JBool False),
      (''databaseConfigJsonFilepath'', JStr ''/proj/db/package.json''),
      (''generatedPackageJsonFilepath'', JStr ''/proj/db/generated/package.json''),
      (''hyperschemaDirectory'', JStr ''/proj/db/generated/schemas''),
      (''hyperdbDirectory'', JStr ''/proj/db/generated/database''),
      (''moduleType'', JStr ''module'')]"

text \<open>A project directory without a manifest.\<close>

definition bare_project :: world where
  "bare_project =
     \<lparr>cwd = ''/proj'',
      files = [[] \<mapsto> Dir, [''proj''] \<mapsto> Dir],
      trace = [],
      loader = plain_loader,
      ext = quiet_ext\<rparr>"

text \<open>
  A project without a manifest whose \<^verbatim>\<open>db/config.js\<close> default-exports a \<^verbatim>\<open>moduleType\<close>.
\<close>

definition module_type_project :: world where
  "module_type_project =
     \<lparr>cwd = ''/proj'',
      files = [[] \<mapsto> Dir,
               [''proj''] \<mapsto> Dir,
               [''proj'', ''db''] \<mapsto> Dir,
               [''proj'', ''db'', ''config.js''] \<mapsto>
                 File (ConfigModule [(''moduleType'', JStr ''module'')])],
      trace = [],
      loader = plain_loader,
      ext = quiet_ext\<rparr>"

text \<open>
  A project after scaffolding: the database directory with its schema file and an empty
  \<^verbatim>\<open>generated\<close> directory.  Its builders write to disk.
\<close>

definition scaffolded_project :: world where
  "scaffolded_project =
     \<lparr>cwd = ''/proj'',
      files = [[] \<mapsto> Dir,
               [''proj''] \<mapsto> Dir,
               [''proj'', ''package.json''] \<mapsto> File (Json (JObj [(''name'', JStr ''app'')])),
               [''proj'', ''database''] \<mapsto> Dir,
               [''proj'', ''database'', ''config.js''] \<mapsto> File ConfigFileTemplate,
               [''proj'', ''database'', ''schema.js''] \<mapsto> File (SchemaFileTemplate False),
               [''proj'', ''database'', ''generated''] \<mapsto> Dir],
      trace = [],
      loader = plain_loader,
      ext = disk_ext\<rparr>"

text \<open>The same project with builders whose \<^verbatim>\<open>createDatabase\<close> callback throws.\<close>

definition failing_project :: world where
  "failing_project = scaffolded_project\<lparr>ext := failing_ext\<rparr>"

text \<open>
  A project whose database directory \<^verbatim>\<open>/proj/db\<close> holds the user's own \<^verbatim>\<open>config.js\<close> and
  \<^verbatim>\<open>schema.js\<close>; there is no \<^verbatim>\<open>/proj/missing\<close>.  \<open>roundabout\<close> names \<^verbatim>\<open>/proj/db\<close> by a path
  through that missing directory.
\<close>

definition occupied_project :: world where
  "occupied_project =
     \<lparr>cwd = ''/proj'',
      files = [[] \<mapsto> Dir,
               [''proj''] \<mapsto> Dir,
               [''proj'', ''package.json''] \<mapsto> File (Json (JObj [(''name'', JStr ''app'')])),
               [''proj'', ''db''] \<mapsto> Dir,
               [''proj'', ''db'', ''config.js''] \<mapsto> File (Text ''my settings''),
               [''proj'', ''db'', ''schema.js''] \<mapsto> File (Text ''my schema'')],
      trace = [],
      loader = plain_loader,
      ext = quiet_ext\<rparr>"

definition roundabout :: string where
  "roundabout = ''/proj/missing/../db''"

text \<open>
  A template namespace that does export \<^verbatim>\<open>packageJsonTemplate\<close>, rendering its two
  arguments as a JSON document; \<^verbatim>\<open>src/templates/basic.js\<close> has no such export.
\<close>

definition with_packageJsonTemplate :: templates where
  "with_packageJsonTemplate =
     \<lparr>packageJsonTemplate =
        Some (\<lambda>main type. Json (JObj [(''main'', JStr main), (''type'', JStr type)]))\<rparr>"

section \<open>Auxiliary facts\<close>

subsection \<open>Objects and results\<close>

lemma get_prop_update: "get_prop (AList.update k v c) k' = (if k' = k then v else get_prop c k')"
  by (simp add: get_prop_def update_conv')

lemma get_prop_merge:
  "get_prop (AList.merge a b) k = (case map_of b k of None \<Rightarrow> get_prop a k | Some v \<Rightarrow> v)"
  by (simp add: get_prop_def merge_conv' map_add_def split: option.splits)

lemma ebind_Inr: "ebind r k = Inr c \<longleftrightarrow> (\<exists>x. r = Inr x \<and> k x = Inr c)"
  by (cases r) (simp_all add: ebind_def)

lemma as_path_Inr: "as_path v = Inr s \<longleftrightarrow> v = JStr s"
  by (cases v) simp_all

subsection \<open>The dependency loop\<close>

lemma missing_loop_object:
  "missing_loop (JObj kvs) names acc =
     Inr (acc @ filter (\<lambda>name. \<not> truthy (get_prop kvs name)) names)"
  by (induction names arbitrary: acc) (simp_all add: ebind_def)

lemma missing_loop_bool: "missing_loop (JBool b) names acc = Inr (acc @ names)"
  by (induction names arbitrary: acc) (simp_all add: ebind_def)

lemma missing_loop_num: "missing_loop (JNum n) names acc = Inr (acc @ names)"
  by (induction names arbitrary: acc) (simp_all add: ebind_def)

lemma missing_loop_str: "missing_loop (JStr s) names acc = Inr (acc @ names)"
  by (induction names arbitrary: acc) (simp_all add: ebind_def)

lemma get_prop_Nil: "get_prop [] k = JUndefined"
  by (simp add: get_prop_def)

lemma checkPackageDependencies_entries:
  assumes "truthy pkg"
  shows "ebind (js_member pkg ''dependencies'') (\<lambda>deps. missing_loop (js_or deps (JObj [])) names [])
         = Inr (filter (\<lambda>name. \<not> truthy (dependency_entry pkg name)) names)"
proof (cases pkg)
  case (JObj kvs)
  show ?thesis
    by (cases "get_prop kvs ''dependencies''")
       (simp_all add: JObj ebind_def js_or_def dependency_entry_def missing_loop_object
          missing_loop_bool missing_loop_num missing_loop_str get_prop_Nil)
qed (use assms in \<open>simp_all add: ebind_def js_or_def dependency_entry_def missing_loop_object get_prop_Nil\<close>)

subsection \<open>Paths\<close>

lemma split_slash_nonempty: "split_slash s \<noteq> []"
  by (induction s) (simp_all split: list.splits)

lemma split_slash_append:
  "split_slash (a @ CHR ''/'' # b) = split_slash a @ split_slash b"
proof (induction a)
  case Nil
  show ?case by simp
next
  case (Cons c cs)
  obtain s ss where s: "split_slash cs = s # ss"
    using split_slash_nonempty [of cs] by (cases "split_slash cs") simp_all
  show ?case using Cons s by simp
qed

lemma split_slash_no_slash: "seg \<in> set (split_slash s) \<Longrightarrow> CHR ''/'' \<notin> set seg"
proof (induction s arbitrary: seg)
  case Nil
  then show ?case by simp
next
  case (Cons c cs)
  obtain t ts where t: "split_slash cs = t # ts"
    using split_slash_nonempty [of cs] by (cases "split_slash cs") simp_all
  show ?case
  proof (cases "c = CHR ''/''")
    case True
    with Cons show ?thesis by auto
  next
    case False
    with Cons t show ?thesis by auto
  qed
qed

lemma split_slash_plain: "CHR ''/'' \<notin> set s \<Longrightarrow> split_slash s = [s]"
  by (induction s) auto

lemma split_join_slash:
  "segs \<noteq> [] \<Longrightarrow> \<forall>seg \<in> set segs. CHR ''/'' \<notin> set seg \<Longrightarrow> split_slash (join_slash segs) = segs"
proof (induction segs rule: join_slash.induct)
  case 1
  then show ?case by simp
next
  case (2 s)
  then show ?case by (simp add: split_slash_plain)
next
  case (3 s t ss)
  then show ?case by (simp add: split_slash_append split_slash_plain)
qed

lemma norm_step_good:
  "\<forall>s \<in> set st. good s \<Longrightarrow> CHR ''/'' \<notin> set seg \<Longrightarrow> \<forall>s \<in> set (norm_step False st seg). good s"
  by (auto simp: norm_step_def good_def dest: in_set_butlastD)

lemma foldl_norm_step_good:
  "\<forall>s \<in> set st. good s \<Longrightarrow> \<forall>seg \<in> set segs. CHR ''/'' \<notin> set seg \<Longrightarrow>
   \<forall>s \<in> set (foldl (norm_step False) st segs). good s"
proof (induction segs arbitrary: st)
  case Nil
  then show ?case by simp
next
  case (Cons seg segs)
  have "\<forall>s \<in> set (norm_step False st seg). good s"
    using Cons.prems by (intro norm_step_good) simp_all
  then show ?case using Cons by simp
qed

lemma normalizeString_good: "\<forall>s \<in> set (normalizeString (split_slash p) False). good s"
  unfolding normalizeString_def
  by (rule foldl_norm_step_good) (simp_all add: split_slash_no_slash)

lemma foldl_norm_step_goods:
  "\<forall>s \<in> set segs. good s \<Longrightarrow> foldl (norm_step b) st segs = st @ segs"
  by (induction segs arbitrary: st) (simp_all add: norm_step_def good_def)

lemma join_slash_empty: "\<forall>s \<in> set segs. s \<noteq> [] \<Longrightarrow> join_slash segs = [] \<longleftrightarrow> segs = []"
  by (induction segs rule: join_slash.induct) simp_all

lemma norm_step_empty [simp]: "norm_step b st [] = st"
  by (simp add: norm_step_def)

lemma fs_resolve_absolute:
  "isAbsolute p \<Longrightarrow> fs_resolve wd p = normalizeString (split_slash p) False"
  by (simp add: fs_resolve_def)

lemma resolve_normalize:
  assumes "isAbsolute q"
  shows "fs_resolve wd (path_normalize q) = normalizeString (split_slash q) False"
proof -
  define S where "S = normalizeString (split_slash q) False"
  have good: "\<forall>s \<in> set S. good s" unfolding S_def by (rule normalizeString_good)
  then have ne: "\<forall>s \<in> set S. s \<noteq> []" and ns: "\<forall>s \<in> set S. CHR ''/'' \<notin> set s"
    by (simp_all add: good_def)
  from assms have q: "q \<noteq> []" "hd q = CHR ''/''" by (simp_all add: isAbsolute_def)
  show ?thesis
  proof (cases "S = []")
    case True
    then have "path_normalize q = ''/''"
      using q by (simp add: path_normalize_def S_def [symmetric])
    moreover have "fs_resolve wd ''/'' = []"
      by (simp add: fs_resolve_def isAbsolute_def normalizeString_def)
    ultimately show ?thesis
      using True by (simp add: S_def)
  next
    case False
    then have j: "join_slash S \<noteq> []" using join_slash_empty [OF ne] by simp
    have sp: "split_slash (join_slash S) = S" using False ns by (rule split_join_slash)
    have sp': "split_slash (join_slash S @ ''/'') = S @ [[]]"
      using split_slash_append [of "join_slash S" "[]"] sp by simp
    have n: "path_normalize q = CHR ''/'' # join_slash S @ (if last q = CHR ''/'' then ''/'' else [])"
      using q j by (simp add: path_normalize_def S_def [symmetric] Let_def)
    have "fs_resolve wd (path_normalize q) = foldl (norm_step False) [] S"
      unfolding n using sp sp'
      by (simp add: fs_resolve_def isAbsolute_def normalizeString_def)
    then show ?thesis
      using good by (simp add: foldl_norm_step_goods S_def [symmetric])
  qed
qed

lemma resolve_join:
  assumes "isAbsolute d" and "x \<noteq> []"
  shows "fs_resolve wd (path_join [d, x]) = foldl (norm_step False) (fs_resolve wd d) (split_slash x)"
proof -
  from assms have d: "d \<noteq> []" by (simp add: isAbsolute_def)
  have j: "path_join [d, x] = path_normalize (d @ CHR ''/'' # x)"
    using d assms(2) by (simp add: path_join_def)
  have a: "isAbsolute (d @ CHR ''/'' # x)"
    using assms(1) by (simp add: isAbsolute_def)
  show ?thesis
    unfolding j resolve_normalize [OF a]
    by (simp add: normalizeString_def split_slash_append fs_resolve_absolute [OF assms(1)])
qed

lemma resolve_relative:
  assumes "isAbsolute wd" and "\<not> isAbsolute x"
  shows "fs_resolve wd x = foldl (norm_step False) (fs_resolve wd wd) (split_slash x)"
  using assms
  by (simp add: fs_resolve_def normalizeString_def split_slash_append)

lemma resolve_join_names:
  assumes "isAbsolute d"
  shows "fs_resolve wd (path_join [d, ''config.js'']) = fs_resolve wd d @ [''config.js'']"
    and "fs_resolve wd (path_join [d, ''./config.js'']) = fs_resolve wd d @ [''config.js'']"
    and "fs_resolve wd (path_join [d, ''./functions.js'']) = fs_resolve wd d @ [''functions.js'']"
    and "fs_resolve wd (path_join [d, ''./schema.js'']) = fs_resolve wd d @ [''schema.js'']"
    and "fs_resolve wd (path_join [d, ''./package.json'']) = fs_resolve wd d @ [''package.json'']"
    and "fs_resolve wd (path_join [d, ''package.json'']) = fs_resolve wd d @ [''package.json'']"
    and "fs_resolve wd (path_join [d, ''./generated'']) = fs_resolve wd d @ [''generated'']"
    and "fs_resolve wd (path_join [d, ''index.js'']) = fs_resolve wd d @ [''index.js'']"
  by (simp_all add: resolve_join [OF assms] norm_step_def)

lemma isAbsolute_dirname: "isAbsolute d \<Longrightarrow> isAbsolute (dirname d)"
  by (cases d) (simp_all add: isAbsolute_def dirname_def Let_def)


lemma isAbsolute_path_normalize: "isAbsolute p \<Longrightarrow> isAbsolute (path_normalize p)"
  by (simp add: isAbsolute_def path_normalize_def Let_def)

lemma path_normalize_nonempty: "path_normalize p \<noteq> []"
  by (simp add: path_normalize_def Let_def)

lemma path_join_nonempty: "path_join args \<noteq> []"
  by (simp add: path_join_def Let_def path_normalize_nonempty)

lemma hd_join_slash: "s \<noteq> [] \<Longrightarrow> hd (join_slash (s # ss)) = hd s"
  by (cases ss) simp_all

lemma join_slash_nonempty: "s \<noteq> [] \<Longrightarrow> join_slash (s # ss) \<noteq> []"
  by (cases ss) simp_all

lemma isAbsolute_path_join: "isAbsolute a \<Longrightarrow> isAbsolute (path_join (a # rest))"
proof -
  assume a: "isAbsolute a"
  then have ne: "a \<noteq> []" by (simp add: isAbsolute_def)
  have "isAbsolute (join_slash (a # filter (\<lambda>x. x \<noteq> []) rest))"
    using a ne by (simp add: isAbsolute_def hd_join_slash join_slash_nonempty)
  then show ?thesis
    using ne by (simp add: path_join_def isAbsolute_path_normalize)
qed

lemma getDatabaseConfigDirectory_absolute:
  "isAbsolute wd \<Longrightarrow> isAbsolute (getDatabaseConfigDirectory wd arg)"
  by (simp add: getDatabaseConfigDirectory_def Let_def isAbsolute_path_join)

lemma isAbsolute_resolved: "isAbsolute d \<Longrightarrow> isAbsolute (resolved d p)"
  by (simp add: resolved_def isAbsolute_path_join)

subsection \<open>Configuration resolution\<close>

lemma getFilepathFromConfig_Inr:
  assumes "get_prop config ''databaseConfigDirectory'' = JStr d"
  shows "getFilepathFromConfig config cp dflt = Inr p \<longleftrightarrow>
     (\<exists>s. js_or (get_prop config cp) (JStr dflt) = JStr s \<and> p = resolved d s)"
proof (cases "js_or (get_prop config cp) (JStr dflt)")
  case (JStr s)
  have "getFilepathFromConfig config cp dflt = Inr (resolved d s)"
    by (simp add: getFilepathFromConfig_def ebind_def resolved_def JStr assms)
  then show ?thesis
    unfolding JStr by auto
qed (simp_all add: getFilepathFromConfig_def ebind_def)

lemma set_path_Inr:
  "set_path key cp dflt config k = Inr c \<longleftrightarrow>
     (\<exists>p. getFilepathFromConfig config cp dflt = Inr p \<and> k (AList.update key (JStr p) config) = Inr c)"
  by (simp add: set_path_def ebind_Inr)

lemma set_joined_Inr:
  "set_joined key base name config k = Inr c \<longleftrightarrow>
     (\<exists>b. get_prop config base = JStr b \<and> k (AList.update key (JStr (path_join [b, name])) config) = Inr c)"
  by (simp add: set_joined_def ebind_Inr as_path_Inr)

lemma set_package_other: "k \<noteq> ''package'' \<Longrightarrow> get_prop (set_package w config) k = get_prop config k"
  by (simp add: set_package_def get_prop_update split: sum.splits)

lemma set_package_package:
  "get_prop (set_package w config) ''package'' =
     (case getPackageJson w (cwd w) of Inl e \<Rightarrow> get_prop config ''package'' | Inr pkg \<Rightarrow> pkg)"
  by (simp add: set_package_def get_prop_update split: sum.splits)

lemma set_moduleType_other:
  assumes "set_moduleType config = Inr c" and "k \<noteq> ''moduleType''"
  shows "get_prop c k = get_prop config k"
proof (cases "truthy (get_prop config ''package'')")
  case True
  show ?thesis
  proof (cases "js_member (get_prop config ''package'') ''type''")
    case (Inl e)
    with assms(1) True show ?thesis by (simp add: set_moduleType_def ebind_def)
  next
    case (Inr t)
    with assms(1) True
    have "c = AList.update ''moduleType'' (js_or t (JStr ''commonjs'')) config"
      by (simp add: set_moduleType_def ebind_def)
    then show ?thesis using assms(2) by (simp add: get_prop_update)
  qed
next
  case False
  with assms(1) show ?thesis by (simp add: set_moduleType_def)
qed

lemma set_moduleType_moduleType:
  assumes "set_moduleType config = Inr c"
  shows "if truthy (get_prop config ''package'')
         then js_member (get_prop config ''package'') ''type'' \<noteq> Inl e \<and>
              (js_member (get_prop config ''package'') ''type'' = Inr t \<longrightarrow>
               get_prop c ''moduleType'' = js_or t (JStr ''commonjs''))
         else get_prop c ''moduleType'' = get_prop config ''moduleType''"
proof (cases "truthy (get_prop config ''package'')")
  case True
  show ?thesis
  proof (cases "js_member (get_prop config ''package'') ''type''")
    case (Inl e')
    with assms True show ?thesis by (simp add: set_moduleType_def ebind_def)
  next
    case (Inr t')
    with assms True
    have "c = AList.update ''moduleType'' (js_or t' (JStr ''commonjs'')) config"
      by (simp add: set_moduleType_def ebind_def)
    then show ?thesis using True Inr by (simp add: get_prop_update)
  qed
next
  case False
  with assms show ?thesis by (simp add: set_moduleType_def)
qed

lemma defaultConfig_props:
  "get_prop defaultConfig ''functionsFilepath'' = JStr ''./functions.js''"
  "get_prop defaultConfig ''schemaFilepath'' = JStr ''./schema.js''"
  "get_prop defaultConfig ''configFilepath'' = JStr ''./config.js''"
  "get_prop defaultConfig ''projectPackageJsonFilepath'' = JStr ''./package.json''"
  "get_prop defaultConfig ''generatedCodeDirectory'' = JStr ''./generated''"
  "get_prop defaultConfig ''package'' = JObj []"
  "get_prop defaultConfig ''moduleType'' = JUndefined"
  by (simp_all add: defaultConfig_def get_prop_def)

lemma configured_eq_gen:
  assumes "get_prop defaultConfig key = JStr dflt"
  shows "js_or (get_prop (AList.merge defaultConfig uc) key) (JStr dflt) = configured uc key dflt"
proof (cases "map_of uc key")
  case None
  then have "get_prop uc key = JUndefined" by (simp add: get_prop_def)
  then show ?thesis
    using None assms by (simp add: get_prop_merge configured_def js_or_def)
next
  case (Some v)
  then have "get_prop uc key = v" by (simp add: get_prop_def)
  then show ?thesis
    using Some by (simp add: get_prop_merge configured_def js_or_def)
qed

lemmas configured_eq =
  configured_eq_gen [OF defaultConfig_props(1)] configured_eq_gen [OF defaultConfig_props(2)]
  configured_eq_gen [OF defaultConfig_props(3)] configured_eq_gen [OF defaultConfig_props(4)]
  configured_eq_gen [OF defaultConfig_props(5)]

text \<open>The configuration just before the manifest is read, as a chain of assignments.\<close>

lemma mergeConfig_stages:
  assumes "mergeConfig w filepath options = Inr c"
  shows "\<exists>ex f s cf pj g c9.
     js_member options ''examples'' = Inr ex \<and>
     configured (loadUserConfig w filepath) ''functionsFilepath'' ''./functions.js'' = JStr f \<and>
     configured (loadUserConfig w filepath) ''schemaFilepath'' ''./schema.js'' = JStr s \<and>
     configured (loadUserConfig w filepath) ''configFilepath'' ''./config.js'' = JStr cf \<and>
     configured (loadUserConfig w filepath) ''projectPackageJsonFilepath'' ''./package.json'' = JStr pj \<and>
     configured (loadUserConfig w filepath) ''generatedCodeDirectory'' ''./generated'' = JStr g \<and>
     set_moduleType (set_package w c9) = Inr c \<and>
     c9 = AList.update ''hyperdbDirectory'' (JStr (path_join [resolved (getDatabaseConfigDirectory (cwd w) filepath) g, ''database'']))
          (AList.update ''hyperschemaDirectory'' (JStr (path_join [resolved (getDatabaseConfigDirectory (cwd w) filepath) g, ''schemas'']))
          (AList.update ''generatedPackageJsonFilepath'' (JStr (path_join [resolved (getDatabaseConfigDirectory (cwd w) filepath) g, ''package.json'']))
          (AList.update ''generatedCodeDirectory'' (JStr (resolved (getDatabaseConfigDirectory (cwd w) filepath) g))
          (AList.update ''databaseConfigJsonFilepath'' (JStr (path_join [getDatabaseConfigDirectory (cwd w) filepath, ''package.json'']))
          (AList.update ''projectPackageJsonFilepath'' (JStr (resolved (getDatabaseConfigDirectory (cwd w) filepath) pj))
          (AList.update ''configFilepath'' (JStr (resolved (getDatabaseConfigDirectory (cwd w) filepath) cf))
          (AList.update ''schemaFilepath'' (JStr (resolved (getDatabaseConfigDirectory (cwd w) filepath) s))
          (AList.update ''functionsFilepath'' (JStr (resolved (getDatabaseConfigDirectory (cwd w) filepath) f))
          (AList.update ''examples'' ex
          (AList.update ''databaseConfigDirectory'' (JStr (getDatabaseConfigDirectory (cwd w) filepath))
             (AList.merge defaultConfig (loadUserConfig w filepath))))))))))))"
  using assms unfolding mergeConfig_def Let_def
  apply (subst (asm) ebind_Inr, elim exE conjE)
  apply (subst (asm) set_path_Inr, elim exE conjE)
  apply (subst (asm) set_path_Inr, elim exE conjE)
  apply (subst (asm) set_path_Inr, elim exE conjE)
  apply (subst (asm) set_path_Inr, elim exE conjE)
  apply (subst (asm) set_joined_Inr, elim exE conjE)
  apply (subst (asm) set_path_Inr, elim exE conjE)
  apply (subst (asm) set_joined_Inr, elim exE conjE)
  apply (subst (asm) set_joined_Inr, elim exE conjE)
  apply (subst (asm) set_joined_Inr, elim exE conjE)
  apply (simp add: get_prop_update getFilepathFromConfig_Inr configured_eq)
  apply (elim exE conjE)
  apply simp
  done

text \<open>Every property of the merged configuration, read off the chain.\<close>

lemma mergeConfig_props:
  assumes "mergeConfig w filepath options = Inr c"
  obtains ex f s cf pj g where
    "js_member options ''examples'' = Inr ex"
    "configured (loadUserConfig w filepath) ''functionsFilepath'' ''./functions.js'' = JStr f"
    "configured (loadUserConfig w filepath) ''schemaFilepath'' ''./schema.js'' = JStr s"
    "configured (loadUserConfig w filepath) ''configFilepath'' ''./config.js'' = JStr cf"
    "configured (loadUserConfig w filepath) ''projectPackageJsonFilepath'' ''./package.json'' = JStr pj"
    "configured (loadUserConfig w filepath) ''generatedCodeDirectory'' ''./generated'' = JStr g"
    "get_prop c ''databaseConfigDirectory'' = JStr (getDatabaseConfigDirectory (cwd w) filepath)"
    "get_prop c ''examples'' = ex"
    "get_prop c ''functionsFilepath'' = JStr (resolved (getDatabaseConfigDirectory (cwd w) filepath) f)"
    "get_prop c ''schemaFilepath'' = JStr (resolved (getDatabaseConfigDirectory (cwd w) filepath) s)"
    "get_prop c ''configFilepath'' = JStr (resolved (getDatabaseConfigDirectory (cwd w) filepath) cf)"
    "get_prop c ''projectPackageJsonFilepath'' = JStr (resolved (getDatabaseConfigDirectory (cwd w) filepath) pj)"
    "get_prop c ''databaseConfigJsonFilepath'' = JStr (path_join [getDatabaseConfigDirectory (cwd w) filepath, ''package.json''])"
    "get_prop c ''generatedCodeDirectory'' = JStr (resolved (getDatabaseConfigDirectory (cwd w) filepath) g)"
    "get_prop c ''generatedPackageJsonFilepath'' = JStr (path_join [resolved (getDatabaseConfigDirectory (cwd w) filepath) g, ''package.json''])"
    "get_prop c ''hyperschemaDirectory'' = JStr (path_join [resolved (getDatabaseConfigDirectory (cwd w) filepath) g, ''schemas''])"
    "get_prop c ''hyperdbDirectory'' = JStr (path_join [resolved (getDatabaseConfigDirectory (cwd w) filepath) g, ''database''])"
proof -
  from mergeConfig_stages [OF assms] obtain ex f s cf pj g c9 where
    ex: "js_member options ''examples'' = Inr ex"
    and cf: "configured (loadUserConfig w filepath) ''functionsFilepath'' ''./functions.js'' = JStr f"
      "configured (loadUserConfig w filepath) ''schemaFilepath'' ''./schema.js'' = JStr s"
      "configured (loadUserConfig w filepath) ''configFilepath'' ''./config.js'' = JStr cf"
      "configured (loadUserConfig w filepath) ''projectPackageJsonFilepath'' ''./package.json'' = JStr pj"
      "configured (loadUserConfig w filepath) ''generatedCodeDirectory'' ''./generated'' = JStr g"
    and mt: "set_moduleType (set_package w c9) = Inr c"
    and c9: "c9 = AList.update ''hyperdbDirectory'' (JStr (path_join [resolved (getDatabaseConfigDirectory (cwd w) filepath) g, ''database'']))
          (AList.update ''hyperschemaDirectory'' (JStr (path_join [resolved (getDatabaseConfigDirectory (cwd w) filepath) g, ''schemas'']))
          (AList.update ''generatedPackageJsonFilepath'' (JStr (path_join [resolved (getDatabaseConfigDirectory (cwd w) filepath) g, ''package.json'']))
          (AList.update ''generatedCodeDirectory'' (JStr (resolved (getDatabaseConfigDirectory (cwd w) filepath) g))
          (AList.update ''databaseConfigJsonFilepath'' (JStr (path_join [getDatabaseConfigDirectory (cwd w) filepath, ''package.json'']))
          (AList.update ''projectPackageJsonFilepath'' (JStr (resolved (getDatabaseConfigDirectory (cwd w) filepath) pj))
          (AList.update ''configFilepath'' (JStr (resolved (getDatabaseConfigDirectory (cwd w) filepath) cf))
          (AList.update ''schemaFilepath'' (JStr (resolved (getDatabaseConfigDirectory (cwd w) filepath) s))
          (AList.update ''functionsFilepath'' (JStr (resolved (getDatabaseConfigDirectory (cwd w) filepath) f))
          (AList.update ''examples'' ex
          (AList.update ''databaseConfigDirectory'' (JStr (getDatabaseConfigDirectory (cwd w) filepath))
             (AList.merge defaultConfig (loadUserConfig w filepath))))))))))))"
    by (elim exE conjE)
  have other: "get_prop c k = get_prop c9 k" if "k \<noteq> ''moduleType''" "k \<noteq> ''package''" for k
    using set_moduleType_other [OF mt that(1)] set_package_other [OF that(2)] by simp
  show thesis
    by (rule that [OF ex cf])
       (simp_all add: other, simp_all add: c9 get_prop_update)
qed

lemma mergeConfig_untouched:
  assumes "mergeConfig w filepath options = Inr c"
    and "k \<notin> {''databaseConfigDirectory'', ''examples'', ''functionsFilepath'', ''schemaFilepath'',
               ''configFilepath'', ''projectPackageJsonFilepath'', ''databaseConfigJsonFilepath'',
               ''generatedCodeDirectory'', ''generatedPackageJsonFilepath'', ''hyperschemaDirectory'',
               ''hyperdbDirectory'', ''package'', ''moduleType''}"
  shows "get_prop c k = get_prop (AList.merge defaultConfig (loadUserConfig w filepath)) k"
proof -
  from mergeConfig_stages [OF assms(1)] obtain ex f s cf pj g c9 where
    mt: "set_moduleType (set_package w c9) = Inr c"
    and c9: "c9 = AList.update ''hyperdbDirectory'' (JStr (path_join [resolved (getDatabaseConfigDirectory (cwd w) filepath) g, ''database'']))
          (AList.update ''hyperschemaDirectory'' (JStr (path_join [resolved (getDatabaseConfigDirectory (cwd w) filepath) g, ''schemas'']))
          (AList.update ''generatedPackageJsonFilepath'' (JStr (path_join [resolved (getDatabaseConfigDirectory (cwd w) filepath) g, ''package.json'']))
          (AList.update ''generatedCodeDirectory'' (JStr (resolved (getDatabaseConfigDirectory (cwd w) filepath) g))
          (AList.update ''databaseConfigJsonFilepath'' (JStr (path_join [getDatabaseConfigDirectory (cwd w) filepath, ''package.json'']))
          (AList.update ''projectPackageJsonFilepath'' (JStr (resolved (getDatabaseConfigDirectory (cwd w) filepath) pj))
          (AList.update ''configFilepath'' (JStr (resolved (getDatabaseConfigDirectory (cwd w) filepath) cf))
          (AList.update ''schemaFilepath'' (JStr (resolved (getDatabaseConfigDirectory (cwd w) filepath) s))
          (AList.update ''functionsFilepath'' (JStr (resolved (getDatabaseConfigDirectory (cwd w) filepath) f))
          (AList.update ''examples'' ex
          (AList.update ''databaseConfigDirectory'' (JStr (getDatabaseConfigDirectory (cwd w) filepath))
             (AList.merge defaultConfig (loadUserConfig w filepath))))))))))))"
    by (elim exE conjE)
  from assms(2) have k: "k \<noteq> ''moduleType''" "k \<noteq> ''package''" by simp_all
  have "get_prop c k = get_prop c9 k"
    using set_moduleType_other [OF mt k(1)] set_package_other [OF k(2)] by simp
  also have "\<dots> = get_prop (AList.merge defaultConfig (loadUserConfig w filepath)) k"
    using assms(2) unfolding c9 by (simp add: get_prop_update)
  finally show ?thesis .
qed

lemma mergeConfig_package:
  assumes "mergeConfig w filepath options = Inr c"
  shows "get_prop c ''package'' =
           (case getPackageJson w (cwd w) of
              Inr pkg \<Rightarrow> pkg
            | Inl e \<Rightarrow> get_prop (AList.merge defaultConfig (loadUserConfig w filepath)) ''package'')"
proof -
  from mergeConfig_stages [OF assms(1)] obtain ex f s cf pj g c9 where
    mt: "set_moduleType (set_package w c9) = Inr c"
    and c9: "c9 = AList.update ''hyperdbDirectory'' (JStr (path_join [resolved (getDatabaseConfigDirectory (cwd w) filepath) g, ''database'']))
          (AList.update ''hyperschemaDirectory'' (JStr (path_join [resolved (getDatabaseConfigDirectory (cwd w) filepath) g, ''schemas'']))
          (AList.update ''generatedPackageJsonFilepath'' (JStr (path_join [resolved (getDatabaseConfigDirectory (cwd w) filepath) g, ''package.json'']))
          (AList.update ''generatedCodeDirectory'' (JStr (resolved (getDatabaseConfigDirectory (cwd w) filepath) g))
          (AList.update ''databaseConfigJsonFilepath'' (JStr (path_join [getDatabaseConfigDirectory (cwd w) filepath, ''package.json'']))
          (AList.update ''projectPackageJsonFilepath'' (JStr (resolved (getDatabaseConfigDirectory (cwd w) filepath) pj))
          (AList.update ''configFilepath'' (JStr (resolved (getDatabaseConfigDirectory (cwd w) filepath) cf))
          (AList.update ''schemaFilepath'' (JStr (resolved (getDatabaseConfigDirectory (cwd w) filepath) s))
          (AList.update ''functionsFilepath'' (JStr (resolved (getDatabaseConfigDirectory (cwd w) filepath) f))
          (AList.update ''examples'' ex
          (AList.update ''databaseConfigDirectory'' (JStr (getDatabaseConfigDirectory (cwd w) filepath))
             (AList.merge defaultConfig (loadUserConfig w filepath))))))))))))"
    by (elim exE conjE)
  have c9p: "get_prop c9 ''package'' = get_prop (AList.merge defaultConfig (loadUserConfig w filepath)) ''package''"
    unfolding c9 by (simp add: get_prop_update)
  have "get_prop c ''package'' = get_prop (set_package w c9) ''package''"
    by (rule set_moduleType_other [OF mt]) simp
  then show ?thesis
    by (simp add: set_package_package c9p split: sum.splits)
qed

lemma mergeConfig_moduleType:
  assumes "mergeConfig w filepath options = Inr c"
  shows "if truthy (get_prop c ''package'')
         then js_member (get_prop c ''package'') ''type'' \<noteq> Inl e \<and>
              (js_member (get_prop c ''package'') ''type'' = Inr t \<longrightarrow>
               get_prop c ''moduleType'' = js_or t (JStr ''commonjs''))
         else get_prop c ''moduleType'' = get_prop (loadUserConfig w filepath) ''moduleType''"
proof -
  from mergeConfig_stages [OF assms(1)] obtain ex f s cf pj g c9 where
    mt: "set_moduleType (set_package w c9) = Inr c"
    and c9: "c9 = AList.update ''hyperdbDirectory'' (JStr (path_join [resolved (getDatabaseConfigDirectory (cwd w) filepath) g, ''database'']))
          (AList.update ''hyperschemaDirectory'' (JStr (path_join [resolved (getDatabaseConfigDirectory (cwd w) filepath) g, ''schemas'']))
          (AList.update ''generatedPackageJsonFilepath'' (JStr (path_join [resolved (getDatabaseConfigDirectory (cwd w) filepath) g, ''package.json'']))
          (AList.update ''generatedCodeDirectory'' (JStr (resolved (getDatabaseConfigDirectory (cwd w) filepath) g))
          (AList.update ''databaseConfigJsonFilepath'' (JStr (path_join [getDatabaseConfigDirectory (cwd w) filepath, ''package.json'']))
          (AList.update ''projectPackageJsonFilepath'' (JStr (resolved (getDatabaseConfigDirectory (cwd w) filepath) pj))
          (AList.update ''configFilepath'' (JStr (resolved (getDatabaseConfigDirectory (cwd w) filepath) cf))
          (AList.update ''schemaFilepath'' (JStr (resolved (getDatabaseConfigDirectory (cwd w) filepath) s))
          (AList.update ''functionsFilepath'' (JStr (resolved (getDatabaseConfigDirectory (cwd w) filepath) f))
          (AList.update ''examples'' ex
          (AList.update ''databaseConfigDirectory'' (JStr (getDatabaseConfigDirectory (cwd w) filepath))
             (AList.merge defaultConfig (loadUserConfig w filepath))))))))))))"
    by (elim exE conjE)
  have p: "get_prop c ''package'' = get_prop (set_package w c9) ''package''"
    by (rule set_moduleType_other [OF mt]) simp
  have "get_prop c9 ''moduleType'' = get_prop (AList.merge defaultConfig (loadUserConfig w filepath)) ''moduleType''"
    unfolding c9 by (simp add: get_prop_update)
  also have "\<dots> = get_prop (loadUserConfig w filepath) ''moduleType''"
    by (cases "map_of (loadUserConfig w filepath) ''moduleType''")
       (simp_all add: get_prop_merge defaultConfig_props, simp_all add: get_prop_def)
  finally have m: "get_prop (set_package w c9) ''moduleType'' = get_prop (loadUserConfig w filepath) ''moduleType''"
    by (simp add: set_package_other)
  show ?thesis
    using set_moduleType_moduleType [OF mt, of e t] by (simp add: p m)
qed


subsection \<open>The file system\<close>

lemma wf_fs_ancestors:
  assumes "wf_fs fs" and "fs k \<noteq> None"
  shows "fs (take i k) = Some Dir \<or> length k \<le> i"
  using assms(2)
proof (induction k rule: rev_induct)
  case Nil
  then show ?case by simp
next
  case (snoc x xs)
  from assms(1) snoc.prems have p: "fs xs = Some Dir"
    unfolding wf_fs_def by (metis butlast_snoc snoc_eq_iff_butlast)
  show ?case
  proof (cases "i \<le> length xs")
    case True
    show ?thesis
    proof (cases "i = length xs")
      case True
      then show ?thesis using p by simp
    next
      case False
      with True snoc.IH p show ?thesis by auto
    qed
  next
    case False
    then show ?thesis by simp
  qed
qed

text \<open>Where a walk arrives, if it arrives: the lexical normal form.\<close>

lemma step_no_dotdot: "''..'' \<notin> set st \<Longrightarrow> ''..'' \<notin> set (step st c)"
  by (auto simp add: step_def dest: in_set_butlastD)

lemma norm_step_step:
  assumes a: "''..'' \<notin> set st" and b: "seg \<noteq> []"
  shows "norm_step False st seg = step st seg"
proof (cases "st = []")
  case True
  with b show ?thesis by (simp add: norm_step_def step_def)
next
  case False
  from False have "last st \<in> set st" by simp
  with a have "last st \<noteq> ''..''" by metis
  with False b show ?thesis by (simp add: norm_step_def step_def)
qed

lemma foldl_norm_step_step:
  "''..'' \<notin> set st \<Longrightarrow>
   foldl (norm_step False) st segs = foldl step st (filter (\<lambda>s. s \<noteq> []) segs)"
proof (induction segs arbitrary: st)
  case Nil
  show ?case by simp
next
  case (Cons seg segs)
  show ?case
  proof (cases "seg = []")
    case True
    then show ?thesis using Cons by simp
  next
    case False
    then show ?thesis
      using Cons.IH [OF step_no_dotdot [OF Cons.prems]] Cons.prems
      by (simp add: norm_step_step)
  qed
qed

lemma walk_lexical: "walk fs cur cs = Inr k \<Longrightarrow> k = foldl step cur cs"
  by (induction fs cur cs rule: walk.induct) (auto split: option.splits node.splits)

lemma normalizeString_no_dotdot: "''..'' \<notin> set (normalizeString (split_slash p) False)"
  using normalizeString_good [of p] by (auto simp add: good_def)

lemma start_lexical:
  "foldl (norm_step False) [] (split_slash (if isAbsolute p then p else cwd w @ ''/'' @ p))
     = foldl step (start w p) (components p)"
proof (cases "isAbsolute p")
  case True
  then show ?thesis
    using foldl_norm_step_step [of "[]" "split_slash p"] by (simp add: start_def components_def)
next
  case False
  have "foldl (norm_step False) [] (split_slash (cwd w @ CHR ''/'' # p))
          = foldl (norm_step False) (normalizeString (split_slash (cwd w)) False) (split_slash p)"
    by (simp add: split_slash_append normalizeString_def)
  also have "\<dots> = foldl step (normalizeString (split_slash (cwd w)) False) (components p)"
    unfolding components_def by (rule foldl_norm_step_step) (rule normalizeString_no_dotdot)
  finally show ?thesis using False by (simp add: start_def)
qed

lemma os_resolve_lexical:
  assumes "os_resolve w p = Inr k"
  shows "k = fs_resolve (cwd w) p"
proof -
  from assms have "walk (files w) (start w p)
      (components p @ (if last p = CHR ''/'' then [''.''] else [])) = Inr k"
    by (simp add: os_resolve_def split: if_splits)
  from walk_lexical [OF this] have "k = foldl step (start w p) (components p)"
    by (simp add: step_def split: if_splits)
  then show ?thesis
    unfolding fs_resolve_def normalizeString_def start_lexical by simp
qed

lemma exists_lexically_absent:
  assumes "files w (fs_resolve (cwd w) p) = None"
  shows "exists w (JStr p) = Inr False \<or> (\<exists>e. exists w (JStr p) = Inl e)"
proof (cases "os_resolve w p")
  case (Inl e)
  then show ?thesis by (simp add: exists_def access_def)
next
  case (Inr k)
  with assms os_resolve_lexical [OF Inr] show ?thesis by (simp add: exists_def access_def)
qed

text \<open>A walk down existing directories arrives.\<close>

lemma walk_good:
  "\<forall>s \<in> set cs. good s \<Longrightarrow> \<forall>i < length cs. fs (cur @ take i cs) = Some Dir \<Longrightarrow>
   walk fs cur cs = Inr (cur @ cs)"
proof (induction cs arbitrary: cur)
  case Nil
  show ?case by simp
next
  case (Cons c cs)
  from Cons.prems(2) [rule_format, of 0] have d: "fs cur = Some Dir" by simp
  from Cons.prems(1) have s: "step cur c = cur @ [c]" by (simp add: step_def good_def)
  have "\<forall>i < length cs. fs ((cur @ [c]) @ take i cs) = Some Dir"
  proof (intro allI impI)
    fix i assume "i < length cs"
    with Cons.prems(2) [rule_format, of "Suc i"] show "fs ((cur @ [c]) @ take i cs) = Some Dir"
      by simp
  qed
  with Cons.IH [of "cur @ [c]"] Cons.prems(1) have "walk fs (cur @ [c]) cs = Inr ((cur @ [c]) @ cs)"
    by simp
  then show ?case using d s by simp
qed

lemma walk_into_directory:
  assumes "wf_fs fs" and "fs k = Some Dir" and "\<forall>s \<in> set k. good s" and "good x"
  shows "walk fs [] (k @ [x]) = Inr (k @ [x])"
proof -
  have "\<forall>i < length (k @ [x]). fs ([] @ take i (k @ [x])) = Some Dir"
  proof (intro allI impI)
    fix i assume "i < length (k @ [x])"
    then have i: "i \<le> length k" by simp
    show "fs ([] @ take i (k @ [x])) = Some Dir"
    proof (cases "i = length k")
      case True
      then show ?thesis using assms(2) by simp
    next
      case False
      with i wf_fs_ancestors [OF assms(1), of k i] assms(2) show ?thesis by simp
    qed
  qed
  with walk_good [of "k @ [x]" fs "[]"] assms(3,4) show ?thesis by simp
qed

lemma join_slash_last_nonempty:
  "segs \<noteq> [] \<Longrightarrow> last segs \<noteq> [] \<Longrightarrow> join_slash segs \<noteq> []"
  by (induction segs rule: join_slash.induct) simp_all

lemma last_join_slash:
  "segs \<noteq> [] \<Longrightarrow> last segs \<noteq> [] \<Longrightarrow> last (join_slash segs) = last (last segs)"
proof (induction segs rule: join_slash.induct)
  case 1
  then show ?case by simp
next
  case (2 s)
  then show ?case by simp
next
  case (3 s t ss)
  from 3 have "last (t # ss) \<noteq> []" by simp
  with join_slash_last_nonempty [of "t # ss"] have "join_slash (t # ss) \<noteq> []" by simp
  with 3 show ?case by simp
qed

lemma os_resolve_normalize:
  assumes "isAbsolute q" and "normalizeString (split_slash q) False \<noteq> []"
    and "last q \<noteq> CHR ''/''"
  shows "os_resolve w (path_normalize q) = walk (files w) [] (normalizeString (split_slash q) False)"
proof -
  define S where "S = normalizeString (split_slash q) False"
  have good: "\<forall>s \<in> set S. good s" unfolding S_def by (rule normalizeString_good)
  then have ne: "\<forall>s \<in> set S. s \<noteq> []" and ns: "\<forall>s \<in> set S. CHR ''/'' \<notin> set s"
    by (simp_all add: good_def)
  from assms(2) have S: "S \<noteq> []" by (simp add: S_def)
  from assms have q: "q \<noteq> []" "hd q = CHR ''/''" by (simp_all add: isAbsolute_def)
  have j: "join_slash S \<noteq> []" using join_slash_empty [OF ne] S by simp
  have sp: "split_slash (join_slash S) = S" using S ns by (rule split_join_slash)
  have n: "path_normalize q = CHR ''/'' # join_slash S"
    using q j assms(3) by (simp add: path_normalize_def S_def [symmetric] Let_def)
  have l: "last S \<in> set S" using S by simp
  with ne ns have "last S \<noteq> []" "CHR ''/'' \<notin> set (last S)" by simp_all
  then have "last (last S) \<noteq> CHR ''/''" using last_in_set by metis
  with last_join_slash [OF S \<open>last S \<noteq> []\<close>] have t: "last (join_slash S) \<noteq> CHR ''/''" by simp
  have c: "components (CHR ''/'' # join_slash S) = S"
    using sp ne by (simp add: components_def filter_id_conv)
  show ?thesis
    unfolding n S_def [symmetric] using t j c
    by (simp add: os_resolve_def start_def isAbsolute_def)
qed

subsection \<open>Sequencing\<close>

lemma and_then_Inr: "m w = (Inr x, w') \<Longrightarrow> and_then m k w = k x w'"
  by (simp add: and_then_def)

lemma and_then_Inl: "m w = (Inl e, w') \<Longrightarrow> and_then m k w = (Inl e, w')"
  by (simp add: and_then_def)

subsection \<open>The guards of \<^verbatim>\<open>createDefaultFiles\<close>\<close>

lemma createDefaultFiles_existing_directory:
  assumes "get_prop c ''databaseConfigDirectory'' = JStr d"
    and "exists w (JStr d) = Inr True"
  shows "createDefaultFiles tpl c w = (Inl (SchemaDirectoryExists d), w)"
  unfolding createDefaultFiles_def
  apply (subst and_then_Inr [where x = True and w' = w])
   apply (simp add: assms)
  apply (subst and_then_Inr [where x = d and w' = w])
   apply (simp add: lift_def assms)
  apply (simp add: lift_def)
  done

lemma createDefaultFiles_existing_index:
  assumes "get_prop c ''databaseConfigDirectory'' = JStr d"
    and "truthy (get_prop c ''examples'')"
    and "exists w (JStr (exampleIndexFilepath d)) = Inr True"
    and "exists w (JStr d) = Inr False"
  shows "createDefaultFiles tpl c w = (Inl (IndexFileExists (exampleIndexFilepath d)), w)"
  unfolding createDefaultFiles_def
  apply (subst and_then_Inr [where x = False and w' = w])
   apply (simp add: assms)
  apply (subst and_then_Inr [where x = d and w' = w])
   apply (simp add: lift_def assms)
  apply (simp only: if_False)
  apply (subst and_then_Inl [where e = "IndexFileExists (exampleIndexFilepath d)" and w' = w])
   apply (simp add: assms)
  apply (rule refl)
  done

lemma init_cases:
  "init tpl this filepath options w =
     (case mergeConfig w filepath options of
        Inl e \<Rightarrow> (Inl e, w)
      | Inr config \<Rightarrow>
          (case validateConfig config of
             Inl e \<Rightarrow> (Inl e, w)
           | Inr u \<Rightarrow>
               (case exists w (JStr ''./package.json'') of
                  Inl e \<Rightarrow> (Inl e, w)
                | Inr found \<Rightarrow>
                    if \<not> found then (Inl PackageJsonNotFound, w)
                    else (case createDefaultFiles tpl config w of
                            (Inl e, w') \<Rightarrow> (Inl e, w')
                          | (Inr u, w') \<Rightarrow>
                              (checkPackageDependencies (this\<lparr>this_config := config\<rparr>), w')))))"
  by (simp add: init_def and_then_def lift_def split: sum.splits prod.splits)

subsection \<open>Building\<close>

lemma build_cases:
  "build filepath options w =
     (case mergeConfig w filepath options of
        Inl e \<Rightarrow> (Inl e, w)
      | Inr config \<Rightarrow>
          (case exists w (get_prop config ''databaseConfigDirectory'') of
             Inl e \<Rightarrow> (Inl e, w)
           | Inr found \<Rightarrow>
               if \<not> found
               then (case as_path (get_prop config ''databaseConfigDirectory'') of
                       Inl e \<Rightarrow> (Inl e, w)
                     | Inr d \<Rightarrow> (Inl (DatabaseDirectoryNotFound d), w))
               else and_then (getSchemaDefinitions (get_prop config ''schemaFilepath''))
                      (buildSchema config) w))"
  by (simp add: build_def and_then_def lift_def split: sum.splits prod.splits)



lemma createDefaultFiles_exists_throws:
  assumes "get_prop c ''databaseConfigDirectory'' = JStr d"
    and "exists w (JStr d) = Inl e"
  shows "createDefaultFiles tpl c w = (Inl e, w)"
  unfolding createDefaultFiles_def
  apply (subst and_then_Inl [where e = e and w' = w])
   apply (simp add: assms)
  apply (rule refl)
  done

text \<open>
  The guards as the code has them: when \<^verbatim>\<open>fs.access\<close> succeeds on the database
  configuration directory, or the \<^verbatim>\<open>examples\<close> option is truthy and \<^verbatim>\<open>fs.access\<close> succeeds on
  the \<^verbatim>\<open>index.js\<close> beside that directory, \<^verbatim>\<open>init\<close> throws and leaves the world as it found
  it.
\<close>

lemma init_refuses_accessible:
  assumes "access w (getDatabaseConfigDirectory (cwd w) filepath) = Inr ()
           \<or> (\<exists>ex. js_member options ''examples'' = Inr ex \<and> truthy ex \<and>
                 access w (exampleIndexFilepath (getDatabaseConfigDirectory (cwd w) filepath))
                   = Inr ())"
  shows "\<exists>e. init tpl this filepath options w = (Inl e, w)"
proof (cases "mergeConfig w filepath options")
  case (Inl e)
  then show ?thesis by (simp add: init_cases)
next
  case (Inr c)
  define d where "d = getDatabaseConfigDirectory (cwd w) filepath"
  from Inr obtain ex f s cf pj g where p:
    "js_member options ''examples'' = Inr ex"
    "get_prop c ''databaseConfigDirectory'' = JStr (getDatabaseConfigDirectory (cwd w) filepath)"
    "get_prop c ''examples'' = ex"
    by (rule mergeConfig_props)
  have q: "get_prop c ''databaseConfigDirectory'' = JStr d" using p(2) by (simp add: d_def)
  have "\<exists>e. createDefaultFiles tpl c w = (Inl e, w)"
  proof (cases "exists w (JStr d)")
    case (Inl e)
    from createDefaultFiles_exists_throws [OF q Inl, of tpl] show ?thesis by simp
  next
    case (Inr found)
    show ?thesis
    proof (cases found)
      case True
      with Inr have "exists w (JStr d) = Inr True" by simp
      from createDefaultFiles_existing_directory [OF q this, of tpl] show ?thesis by simp
    next
      case False
      with Inr have n: "exists w (JStr d) = Inr False" by simp
      then have "access w d \<noteq> Inr ()" by (auto simp add: exists_def split: sum.splits)
      with assms p(1,3) have t: "truthy (get_prop c ''examples'')"
        and "access w (exampleIndexFilepath d) = Inr ()"
        by (auto simp add: d_def)
      then have "exists w (JStr (exampleIndexFilepath d)) = Inr True"
        by (simp add: exists_def)
      from createDefaultFiles_existing_index [OF q t this n, of tpl] show ?thesis by simp
    qed
  qed
  then show ?thesis
    by (auto simp add: init_cases Inr split: sum.splits)
qed

subsection \<open>Running the builders\<close>

lemma run_calls_trace:
  "run_calls cs w = (r, w') \<Longrightarrow>
   cwd w' = cwd w \<and> loader w' = loader w \<and> ext w' = ext w \<and>
   (\<exists>t. trace w' = trace w @ t \<and> prefix t cs \<and> (r = Inr () \<longrightarrow> t = cs))"
proof (induction cs arbitrary: w)
  case Nil
  then show ?case by auto
next
  case (Cons c cs)
  obtain thrown fs' where x: "ext w c (trace w) (files w) = (thrown, fs')"
    by (cases "ext w c (trace w) (files w)")
  show ?case
  proof (cases thrown)
    case True
    with Cons.prems x have "r = Inl (ExternalError c)"
      and "w' = w\<lparr>trace := trace w @ [c], files := fs'\<rparr>"
      by simp_all
    then show ?thesis by simp
  next
    case False
    with Cons.prems x have "run_calls cs (w\<lparr>trace := trace w @ [c], files := fs'\<rparr>) = (r, w')"
      by simp
    from Cons.IH [OF this] show ?thesis by auto
  qed
qed



subsection \<open>A project without a manifest\<close>

lemma resolved_nonempty: "resolved d p \<noteq> []"
  by (simp add: resolved_def path_join_nonempty isAbsolute_def)

lemma getDatabaseConfigDirectory_nonempty:
  "isAbsolute wd \<Longrightarrow> getDatabaseConfigDirectory wd arg \<noteq> []"
  using getDatabaseConfigDirectory_absolute [of wd arg] by (simp add: isAbsolute_def)

lemma resolve_cwd_manifest:
  assumes "isAbsolute wd"
  shows "fs_resolve wd ''./package.json'' = fs_resolve wd wd @ [''package.json'']"
    and "fs_resolve wd (path_join [wd, ''package.json'']) = fs_resolve wd wd @ [''package.json'']"
proof -
  have "\<not> isAbsolute ''./package.json''" by (simp add: isAbsolute_def)
  from resolve_relative [OF assms this]
  show "fs_resolve wd ''./package.json'' = fs_resolve wd wd @ [''package.json'']"
    by (simp add: norm_step_def)
  show "fs_resolve wd (path_join [wd, ''package.json'']) = fs_resolve wd wd @ [''package.json'']"
    by (rule resolve_join_names [OF assms])
qed

lemma no_manifest:
  assumes wf: "wf_fs (files w)" and abs: "isAbsolute (cwd w)"
    and cwd_dir: "files w (fs_resolve (cwd w) (cwd w)) = Some Dir"
    and nopkg: "files w (fs_resolve (cwd w) ''./package.json'') = None"
  shows "exists w (JStr ''./package.json'') = Inr False"
    and "getPackageJson w (cwd w) = Inr JUndefined"
proof -
  define ck where "ck = fs_resolve (cwd w) (cwd w)"
  have ck: "normalizeString (split_slash (cwd w)) False = ck"
    using abs by (simp add: ck_def fs_resolve_def)
  have good: "\<forall>s \<in> set ck. good s"
    unfolding ck [symmetric] by (rule normalizeString_good)
  have dir: "files w ck = Some Dir" using cwd_dir by (simp add: ck_def)
  have none: "files w (ck @ [''package.json'']) = None"
    using nopkg by (simp add: resolve_cwd_manifest(1) [OF abs] ck_def)
  have "components ''./package.json'' = [''.'', ''package.json'']"
    by (simp add: components_def)
  then have "os_resolve w ''./package.json'' = Inr (ck @ [''package.json''])"
    using dir by (simp add: os_resolve_def start_def isAbsolute_def ck step_def)
  then show "exists w (JStr ''./package.json'') = Inr False"
    using none by (simp add: exists_def access_def)
  define q where "q = cwd w @ CHR ''/'' # ''package.json''"
  from abs have d: "cwd w \<noteq> []" by (simp add: isAbsolute_def)
  have j: "path_join [cwd w, ''package.json''] = path_normalize q"
    using d by (simp add: path_join_def q_def)
  have a: "isAbsolute q" using abs by (simp add: isAbsolute_def q_def)
  have l: "last q \<noteq> CHR ''/''" by (simp add: q_def)
  have S: "normalizeString (split_slash q) False = ck @ [''package.json'']"
    using resolve_normalize [OF a, of "cwd w"] resolve_cwd_manifest(2) [OF abs]
    by (simp add: j ck_def)
  have "good ''package.json''" by (simp add: good_def)
  with walk_into_directory [OF wf dir good]
  have "walk (files w) [] (ck @ [''package.json'']) = Inr (ck @ [''package.json''])" by simp
  with os_resolve_normalize [OF a _ l, of w] S
  have "os_resolve w (path_join [cwd w, ''package.json'']) = Inr (ck @ [''package.json''])"
    by (simp add: j)
  then have "exists w (JStr (path_join [cwd w, ''package.json''])) = Inr False"
    using none by (simp add: exists_def access_def)
  then show "getPackageJson w (cwd w) = Inr JUndefined"
    by (simp add: getPackageJson_def ebind_def)
qed

lemma validateConfig_paths_set:
  assumes "isAbsolute (cwd w)" and "mergeConfig w filepath options = Inr c"
  shows "validateConfig c =
           (if truthy (get_prop c ''moduleType'') then Inr ()
            else Inl (MissingConfigFields [''moduleType'']))"
proof -
  from assms(2) obtain ex f s cf pj g where p:
    "js_member options ''examples'' = Inr ex"
    "configured (loadUserConfig w filepath) ''functionsFilepath'' ''./functions.js'' = JStr f"
    "configured (loadUserConfig w filepath) ''schemaFilepath'' ''./schema.js'' = JStr s"
    "configured (loadUserConfig w filepath) ''configFilepath'' ''./config.js'' = JStr cf"
    "configured (loadUserConfig w filepath) ''projectPackageJsonFilepath'' ''./package.json'' = JStr pj"
    "configured (loadUserConfig w filepath) ''generatedCodeDirectory'' ''./generated'' = JStr g"
    "get_prop c ''databaseConfigDirectory'' = JStr (getDatabaseConfigDirectory (cwd w) filepath)"
    "get_prop c ''examples'' = ex"
    "get_prop c ''functionsFilepath'' = JStr (resolved (getDatabaseConfigDirectory (cwd w) filepath) f)"
    "get_prop c ''schemaFilepath'' = JStr (resolved (getDatabaseConfigDirectory (cwd w) filepath) s)"
    "get_prop c ''configFilepath'' = JStr (resolved (getDatabaseConfigDirectory (cwd w) filepath) cf)"
    "get_prop c ''projectPackageJsonFilepath'' = JStr (resolved (getDatabaseConfigDirectory (cwd w) filepath) pj)"
    "get_prop c ''databaseConfigJsonFilepath'' = JStr (path_join [getDatabaseConfigDirectory (cwd w) filepath, ''package.json''])"
    "get_prop c ''generatedCodeDirectory'' = JStr (resolved (getDatabaseConfigDirectory (cwd w) filepath) g)"
    "get_prop c ''generatedPackageJsonFilepath'' = JStr (path_join [resolved (getDatabaseConfigDirectory (cwd w) filepath) g, ''package.json''])"
    "get_prop c ''hyperschemaDirectory'' = JStr (path_join [resolved (getDatabaseConfigDirectory (cwd w) filepath) g, ''schemas''])"
    "get_prop c ''hyperdbDirectory'' = JStr (path_join [resolved (getDatabaseConfigDirectory (cwd w) filepath) g, ''database''])"
    by (rule mergeConfig_props)
  show ?thesis
    by (simp add: validateConfig_def required_def p(7,9-17) resolved_nonempty path_join_nonempty
          getDatabaseConfigDirectory_nonempty [OF assms(1)])
qed

lemma wf_bare_project: "wf_fs (files bare_project)"
  by (auto simp add: wf_fs_def bare_project_def split: if_splits)

subsection \<open>The missing template\<close>

lemma throws_left: "throws m \<Longrightarrow> throws (and_then m k)"
  unfolding throws_def
proof
  fix w
  assume a: "\<forall>w. \<exists>e. fst (m w) = Inl e"
  then obtain e where "fst (m w) = Inl e" by blast
  then show "\<exists>e. fst (and_then m k w) = Inl e"
    by (cases "m w") (simp add: and_then_def)
qed

lemma throws_right: "(\<And>x. throws (k x)) \<Longrightarrow> throws (and_then m k)"
  unfolding throws_def
proof
  fix w
  assume a: "\<And>x. \<forall>w. \<exists>e. fst (k x w) = Inl e"
  obtain r w' where m: "m w = (r, w')" by (cases "m w")
  show "\<exists>e. fst (and_then m k w) = Inl e"
  proof (cases r)
    case (Inl e)
    with m show ?thesis by (simp add: and_then_def)
  next
    case (Inr x)
    with m a [of x] show ?thesis by (simp add: and_then_def)
  qed
qed

lemma throws_lift: "throws (lift (Inl e))"
  by (simp add: throws_def lift_def)

lemma throws_if: "throws a \<Longrightarrow> throws b \<Longrightarrow> throws (if c then a else b)"
  by simp

lemma throws_createDatabaseConfigPackageJsonFile:
  "throws (createDatabaseConfigPackageJsonFile basic_js c)"
  unfolding createDatabaseConfigPackageJsonFile_def
  by (rule throws_right) (simp add: basic_js_def throws_lift)

lemma throws_createDefaultFiles: "throws (createDefaultFiles basic_js c)"
  unfolding createDefaultFiles_def
  apply (rule throws_right)
  apply (rule throws_right)
  apply (rule throws_if)
   apply (rule throws_lift)
  apply (rule throws_right)
  apply (rule throws_right)
  apply (rule throws_right)
  apply (rule throws_right)
  apply (rule throws_right)
  apply (rule throws_right)
  apply (rule throws_left)
  apply (rule throws_createDatabaseConfigPackageJsonFile)
  done

lemma init_basic_js_throws: "\<exists>e. fst (init basic_js this filepath options w) = Inl e"
proof (cases "mergeConfig w filepath options")
  case (Inl e)
  then show ?thesis by (simp add: init_cases)
next
  case (Inr c)
  from throws_createDefaultFiles [of c]
  obtain e where "fst (createDefaultFiles basic_js c w) = Inl e"
    unfolding throws_def by blast
  then obtain w' where "createDefaultFiles basic_js c w = (Inl e, w')"
    by (cases "createDefaultFiles basic_js c w") simp
  then show ?thesis
    by (simp add: init_cases Inr split: sum.splits)
qed

text \<open>
  Were the template exported, \<^verbatim>\<open>init a/db\<close> in \<open>fresh_project\<close> would return, having also
  created the missing directory \<^verbatim>\<open>/proj/a\<close> on the way (\<^verbatim>\<open>mkdir\<close> with \<^verbatim>\<open>recursive: true\<close>).
\<close>

lemma init_creates_missing_ancestors:
  "fst (init with_packageJsonTemplate (HyperdbHelper []) (Some ''a/db'') flags_plain fresh_project)
     = Inr [''hyperschema'', ''hyperdb'', ''corestore'']
   \<and> files fresh_project [''proj'', ''a''] = None
   \<and> files (snd (init with_packageJsonTemplate (HyperdbHelper []) (Some ''a/db'') flags_plain
                   fresh_project)) [''proj'', ''a''] = Some Dir"
  by code_simp


section \<open>Dependency check\<close>

text \<open>
  Claim C6, as the code has it.  \<^verbatim>\<open>checkPackageDependencies\<close> returns, in the order of the
  required list, exactly the required names whose entry in the manifest's
  \<^verbatim>\<open>dependencies\<close> map is falsy: the names that are not keys of the map, and also the keys
  whose value is the empty string, \<^verbatim>\<open>null\<close>, \<^verbatim>\<open>false\<close> or \<^verbatim>\<open>0\<close>.  A missing (or falsy)
  \<^verbatim>\<open>dependencies\<close> field counts as an empty map, and when the configuration holds no
  (truthy) manifest the whole required list is returned.
\<close>

theorem checkPackageDependencies_falsy_entries:
  "checkPackageDependencies this =
     Inr (if \<not> truthy (get_prop (this_config this) ''package'')
          then this_requiredDependencies this
          else filter (\<lambda>name. \<not> truthy (dependency_entry (get_prop (this_config this) ''package'') name))
                 (this_requiredDependencies this))"
  by (simp add: checkPackageDependencies_def checkPackageDependencies_entries)

text \<open>
  An instance of C6 as amended: against a manifest that lists only \<^verbatim>\<open>hyperdb\<close>, the other
  two required packages are reported, in the order of the required list.
\<close>

theorem checkPackageDependencies_falsy_entries_witness:
  "checkPackageDependencies
     (HyperdbHelper [(''package'', JObj [(''dependencies'', JObj [(''hyperdb'', JStr ''^4.0.0'')])])])
   = Inr [''hyperschema'', ''corestore'']"
  using checkPackageDependencies_falsy_entries
    [of "HyperdbHelper [(''package'', JObj [(''dependencies'', JObj [(''hyperdb'', JStr ''^4.0.0'')])])]"]
  by (simp add: HyperdbHelper_def defaultConfig_def dependency_entry_def get_prop_def)

text \<open>
  Claim C6 as the specification words it (the names that are not keys of the dependencies
  map) fails: in \<open>manifest_empty_range\<close> every required package is a key of the map, so no
  name should be reported, but \<^verbatim>\<open>hyperdb\<close>, whose value is the empty string, is.
\<close>

theorem checkPackageDependencies_keys_counterexample:
  "checkPackageDependencies (HyperdbHelper [(''package'', manifest_empty_range)]) = Inr [''hyperdb'']
   \<and> not_dependency_keys manifest_empty_range
        (this_requiredDependencies (HyperdbHelper [(''package'', manifest_empty_range)])) = []"
  by (simp add: checkPackageDependencies_def HyperdbHelper_def defaultConfig_def get_prop_def
        manifest_empty_range_def ebind_def js_or_def not_dependency_keys_def dependency_keys_def)


section \<open>Configuration resolution\<close>




text \<open>
  Claim C3.  With an absolute working directory, every path of the merged configuration is
  absolute.  The base directory is the directory argument when absolute, else that
  argument (\<^verbatim>\<open>./database\<close> when absent) joined to the working directory.  Each of
  \<^verbatim>\<open>functionsFilepath\<close>, \<^verbatim>\<open>schemaFilepath\<close>, \<^verbatim>\<open>configFilepath\<close>, \<^verbatim>\<open>projectPackageJsonFilepath\<close>
  and \<^verbatim>\<open>generatedCodeDirectory\<close> is its configured path, kept when absolute and joined to
  the base directory when relative; the paths derived from the generated directory, and
  the database manifest path, are joins onto absolute paths.
\<close>

theorem mergeConfig_absolute_paths:
  assumes "isAbsolute (cwd w)" and "mergeConfig w filepath options = Inr c"
  shows "\<exists>d f s cf pj g.
     d = (case filepath of
            None \<Rightarrow> path_join [cwd w, ''./database'']
          | Some a \<Rightarrow> if isAbsolute a then a else path_join [cwd w, a]) \<and>
     isAbsolute d \<and>
     get_prop c ''databaseConfigDirectory'' = JStr d \<and>
     configured (loadUserConfig w filepath) ''functionsFilepath'' ''./functions.js'' = JStr f \<and>
     get_prop c ''functionsFilepath'' = JStr (resolved d f) \<and> isAbsolute (resolved d f) \<and>
     configured (loadUserConfig w filepath) ''schemaFilepath'' ''./schema.js'' = JStr s \<and>
     get_prop c ''schemaFilepath'' = JStr (resolved d s) \<and> isAbsolute (resolved d s) \<and>
     configured (loadUserConfig w filepath) ''configFilepath'' ''./config.js'' = JStr cf \<and>
     get_prop c ''configFilepath'' = JStr (resolved d cf) \<and> isAbsolute (resolved d cf) \<and>
     configured (loadUserConfig w filepath) ''projectPackageJsonFilepath'' ''./package.json'' = JStr pj \<and>
     get_prop c ''projectPackageJsonFilepath'' = JStr (resolved d pj) \<and> isAbsolute (resolved d pj) \<and>
     configured (loadUserConfig w filepath) ''generatedCodeDirectory'' ''./generated'' = JStr g \<and>
     get_prop c ''generatedCodeDirectory'' = JStr (resolved d g) \<and> isAbsolute (resolved d g) \<and>
     get_prop c ''generatedPackageJsonFilepath'' = JStr (path_join [resolved d g, ''package.json'']) \<and>
     isAbsolute (path_join [resolved d g, ''package.json'']) \<and>
     get_prop c ''hyperschemaDirectory'' = JStr (path_join [resolved d g, ''schemas'']) \<and>
     isAbsolute (path_join [resolved d g, ''schemas'']) \<and>
     get_prop c ''hyperdbDirectory'' = JStr (path_join [resolved d g, ''database'']) \<and>
     isAbsolute (path_join [resolved d g, ''database'']) \<and>
     get_prop c ''databaseConfigJsonFilepath'' = JStr (path_join [d, ''package.json'']) \<and>
     isAbsolute (path_join [d, ''package.json''])"
proof -
  define d where "d = getDatabaseConfigDirectory (cwd w) filepath"
  have d_eq: "d = (case filepath of
            None \<Rightarrow> path_join [cwd w, ''./database'']
          | Some a \<Rightarrow> if isAbsolute a then a else path_join [cwd w, a])"
    by (cases filepath) (simp_all add: d_def getDatabaseConfigDirectory_def isAbsolute_def)
  have abs: "isAbsolute d"
    unfolding d_def using assms(1) by (rule getDatabaseConfigDirectory_absolute)
  from assms(2) obtain ex f s cf pj g where p:
    "js_member options ''examples'' = Inr ex"
    "configured (loadUserConfig w filepath) ''functionsFilepath'' ''./functions.js'' = JStr f"
    "configured (loadUserConfig w filepath) ''schemaFilepath'' ''./schema.js'' = JStr s"
    "configured (loadUserConfig w filepath) ''configFilepath'' ''./config.js'' = JStr cf"
    "configured (loadUserConfig w filepath) ''projectPackageJsonFilepath'' ''./package.json'' = JStr pj"
    "configured (loadUserConfig w filepath) ''generatedCodeDirectory'' ''./generated'' = JStr g"
    "get_prop c ''databaseConfigDirectory'' = JStr d"
    "get_prop c ''examples'' = ex"
    "get_prop c ''functionsFilepath'' = JStr (resolved d f)"
    "get_prop c ''schemaFilepath'' = JStr (resolved d s)"
    "get_prop c ''configFilepath'' = JStr (resolved d cf)"
    "get_prop c ''projectPackageJsonFilepath'' = JStr (resolved d pj)"
    "get_prop c ''databaseConfigJsonFilepath'' = JStr (path_join [d, ''package.json''])"
    "get_prop c ''generatedCodeDirectory'' = JStr (resolved d g)"
    "get_prop c ''generatedPackageJsonFilepath'' = JStr (path_join [resolved d g, ''package.json''])"
    "get_prop c ''hyperschemaDirectory'' = JStr (path_join [resolved d g, ''schemas''])"
    "get_prop c ''hyperdbDirectory'' = JStr (path_join [resolved d g, ''database''])"
    unfolding d_def by (rule mergeConfig_props)
  show ?thesis
    apply (rule exI [of _ d], rule exI [of _ f], rule exI [of _ s], rule exI [of _ cf],
           rule exI [of _ pj], rule exI [of _ g])
    apply (intro conjI)
    apply (rule d_eq abs p isAbsolute_resolved [OF abs] isAbsolute_path_join [OF abs]
             isAbsolute_path_join [OF isAbsolute_resolved [OF abs]])+
    done
qed

text \<open>
  An instance of C3: in \<open>configured_project\<close> the relative \<^verbatim>\<open>lib/fns.js\<close> lands under
  \<^verbatim>\<open>/proj/db\<close>, the absolute \<^verbatim>\<open>/srv/schema.js\<close> is kept.
\<close>

theorem mergeConfig_absolute_paths_witness:
  "isAbsolute (cwd configured_project)
   \<and> mergeConfig configured_project (Some ''db'') flags_plain = Inr merged_configured
   \<and> get_prop merged_configured ''databaseConfigDirectory'' = JStr ''/proj/db''
   \<and> get_prop merged_configured ''functionsFilepath'' = JStr ''/proj/db/lib/fns.js''
   \<and> get_prop merged_configured ''schemaFilepath'' = JStr ''/srv/schema.js''
   \<and> get_prop merged_configured ''configFilepath'' = JStr ''/proj/db/config.js''
   \<and> get_prop merged_configured ''hyperdbDirectory'' = JStr ''/proj/db/generated/database''"
proof -
  have a: "isAbsolute (cwd configured_project)" by code_simp
  have m: "mergeConfig configured_project (Some ''db'') flags_plain = Inr merged_configured"
    by code_simp
  have u: "configured (loadUserConfig configured_project (Some ''db'')) ''functionsFilepath'' ''./functions.js'' = JStr ''lib/fns.js''"
    "configured (loadUserConfig configured_project (Some ''db'')) ''schemaFilepath'' ''./schema.js'' = JStr ''/srv/schema.js''"
    "configured (loadUserConfig configured_project (Some ''db'')) ''configFilepath'' ''./config.js'' = JStr ''./config.js''"
    "configured (loadUserConfig configured_project (Some ''db'')) ''generatedCodeDirectory'' ''./generated'' = JStr ''./generated''"
    "configured (loadUserConfig configured_project (Some ''db'')) ''projectPackageJsonFilepath'' ''./package.json'' = JStr ''./package.json''"
    by code_simp+
  have r: "path_join [cwd configured_project, ''db''] = ''/proj/db''"
    "resolved ''/proj/db'' ''lib/fns.js'' = ''/proj/db/lib/fns.js''"
    "resolved ''/proj/db'' ''/srv/schema.js'' = ''/srv/schema.js''"
    "resolved ''/proj/db'' ''./config.js'' = ''/proj/db/config.js''"
    "path_join [resolved ''/proj/db'' ''./generated'', ''database''] = ''/proj/db/generated/database''"
    "isAbsolute ''db'' = False"
    by code_simp+
  show ?thesis
    using mergeConfig_absolute_paths [OF a m] a m
    by (simp add: u r)
qed

text \<open>
  Claim C2, as the code has it.  The user configuration is spread over the defaults, so a
  key that \<^verbatim>\<open>mergeConfig\<close> does not assign afterwards holds the user's value when the user
  configuration has the key, else the default.  Assigned afterwards, over both:
  \<^verbatim>\<open>databaseConfigDirectory\<close> (from the directory argument), \<^verbatim>\<open>examples\<close> (from the options),
  the five path keys (made absolute from the user's value when truthy, else from the
  default) and the four paths joined onto them, \<^verbatim>\<open>package\<close> (the manifest read from the
  working directory, \<^verbatim>\<open>undefined\<close> when there is none; the spread value stays only when
  reading throws) and \<^verbatim>\<open>moduleType\<close> (the manifest's \<^verbatim>\<open>type\<close> or \<^verbatim>\<open>commonjs\<close>, whenever
  \<^verbatim>\<open>package\<close> is truthy).
\<close>

theorem mergeConfig_precedence:
  assumes "mergeConfig w filepath options = Inr c"
  shows "(\<forall>k. k \<notin> set assigned_keys \<longrightarrow>
            get_prop c k = (case map_of (loadUserConfig w filepath) k of
                              Some v \<Rightarrow> v
                            | None \<Rightarrow> get_prop defaultConfig k))
       \<and> get_prop c ''databaseConfigDirectory'' = JStr (getDatabaseConfigDirectory (cwd w) filepath)
       \<and> js_member options ''examples'' = Inr (get_prop c ''examples'')
       \<and> (\<exists>f s cf pj g.
            configured (loadUserConfig w filepath) ''functionsFilepath'' ''./functions.js'' = JStr f \<and>
            configured (loadUserConfig w filepath) ''schemaFilepath'' ''./schema.js'' = JStr s \<and>
            configured (loadUserConfig w filepath) ''configFilepath'' ''./config.js'' = JStr cf \<and>
            configured (loadUserConfig w filepath) ''projectPackageJsonFilepath'' ''./package.json'' = JStr pj \<and>
            configured (loadUserConfig w filepath) ''generatedCodeDirectory'' ''./generated'' = JStr g \<and>
            get_prop c ''functionsFilepath'' = JStr (resolved (getDatabaseConfigDirectory (cwd w) filepath) f) \<and>
            get_prop c ''schemaFilepath'' = JStr (resolved (getDatabaseConfigDirectory (cwd w) filepath) s) \<and>
            get_prop c ''configFilepath'' = JStr (resolved (getDatabaseConfigDirectory (cwd w) filepath) cf) \<and>
            get_prop c ''projectPackageJsonFilepath'' = JStr (resolved (getDatabaseConfigDirectory (cwd w) filepath) pj) \<and>
            get_prop c ''generatedCodeDirectory'' = JStr (resolved (getDatabaseConfigDirectory (cwd w) filepath) g) \<and>
            get_prop c ''databaseConfigJsonFilepath'' = JStr (path_join [getDatabaseConfigDirectory (cwd w) filepath, ''package.json'']) \<and>
            get_prop c ''generatedPackageJsonFilepath'' = JStr (path_join [resolved (getDatabaseConfigDirectory (cwd w) filepath) g, ''package.json'']) \<and>
            get_prop c ''hyperschemaDirectory'' = JStr (path_join [resolved (getDatabaseConfigDirectory (cwd w) filepath) g, ''schemas'']) \<and>
            get_prop c ''hyperdbDirectory'' = JStr (path_join [resolved (getDatabaseConfigDirectory (cwd w) filepath) g, ''database'']))
       \<and> get_prop c ''package'' =
           (case getPackageJson w (cwd w) of
              Inr pkg \<Rightarrow> pkg
            | Inl e \<Rightarrow> (case map_of (loadUserConfig w filepath) ''package'' of
                          Some v \<Rightarrow> v
                        | None \<Rightarrow> JObj []))
       \<and> (if truthy (get_prop c ''package'')
          then \<exists>t. js_member (get_prop c ''package'') ''type'' = Inr t \<and>
                   get_prop c ''moduleType'' = js_or t (JStr ''commonjs'')
          else get_prop c ''moduleType'' = get_prop (loadUserConfig w filepath) ''moduleType'')"
proof (intro conjI allI impI)
  fix k
  assume "k \<notin> set assigned_keys"
  then have "k \<notin> {''databaseConfigDirectory'', ''examples'', ''functionsFilepath'', ''schemaFilepath'',
               ''configFilepath'', ''projectPackageJsonFilepath'', ''databaseConfigJsonFilepath'',
               ''generatedCodeDirectory'', ''generatedPackageJsonFilepath'', ''hyperschemaDirectory'',
               ''hyperdbDirectory'', ''package'', ''moduleType''}"
    by (simp add: assigned_keys_def)
  from mergeConfig_untouched [OF assms this]
  show "get_prop c k = (case map_of (loadUserConfig w filepath) k of
                              Some v \<Rightarrow> v
                            | None \<Rightarrow> get_prop defaultConfig k)"
    by (simp add: get_prop_merge)
next
  from assms obtain ex f s cf pj g where p:
    "js_member options ''examples'' = Inr ex"
    "configured (loadUserConfig w filepath) ''functionsFilepath'' ''./functions.js'' = JStr f"
    "configured (loadUserConfig w filepath) ''schemaFilepath'' ''./schema.js'' = JStr s"
    "configured (loadUserConfig w filepath) ''configFilepath'' ''./config.js'' = JStr cf"
    "configured (loadUserConfig w filepath) ''projectPackageJsonFilepath'' ''./package.json'' = JStr pj"
    "configured (loadUserConfig w filepath) ''generatedCodeDirectory'' ''./generated'' = JStr g"
    "get_prop c ''databaseConfigDirectory'' = JStr (getDatabaseConfigDirectory (cwd w) filepath)"
    "get_prop c ''examples'' = ex"
    "get_prop c ''functionsFilepath'' = JStr (resolved (getDatabaseConfigDirectory (cwd w) filepath) f)"
    "get_prop c ''schemaFilepath'' = JStr (resolved (getDatabaseConfigDirectory (cwd w) filepath) s)"
    "get_prop c ''configFilepath'' = JStr (resolved (getDatabaseConfigDirectory (cwd w) filepath) cf)"
    "get_prop c ''projectPackageJsonFilepath'' = JStr (resolved (getDatabaseConfigDirectory (cwd w) filepath) pj)"
    "get_prop c ''databaseConfigJsonFilepath'' = JStr (path_join [getDatabaseConfigDirectory (cwd w) filepath, ''package.json''])"
    "get_prop c ''generatedCodeDirectory'' = JStr (resolved (getDatabaseConfigDirectory (cwd w) filepath) g)"
    "get_prop c ''generatedPackageJsonFilepath'' = JStr (path_join [resolved (getDatabaseConfigDirectory (cwd w) filepath) g, ''package.json''])"
    "get_prop c ''hyperschemaDirectory'' = JStr (path_join [resolved (getDatabaseConfigDirectory (cwd w) filepath) g, ''schemas''])"
    "get_prop c ''hyperdbDirectory'' = JStr (path_join [resolved (getDatabaseConfigDirectory (cwd w) filepath) g, ''database''])"
    by (rule mergeConfig_props)
  show "get_prop c ''databaseConfigDirectory'' = JStr (getDatabaseConfigDirectory (cwd w) filepath)"
    by (rule p)
  show "js_member options ''examples'' = Inr (get_prop c ''examples'')"
    using p(1) p(8) by simp
  show "\<exists>f s cf pj g.
            configured (loadUserConfig w filepath) ''functionsFilepath'' ''./functions.js'' = JStr f \<and>
            configured (loadUserConfig w filepath) ''schemaFilepath'' ''./schema.js'' = JStr s \<and>
            configured (loadUserConfig w filepath) ''configFilepath'' ''./config.js'' = JStr cf \<and>
            configured (loadUserConfig w filepath) ''projectPackageJsonFilepath'' ''./package.json'' = JStr pj \<and>
            configured (loadUserConfig w filepath) ''generatedCodeDirectory'' ''./generated'' = JStr g \<and>
            get_prop c ''functionsFilepath'' = JStr (resolved (getDatabaseConfigDirectory (cwd w) filepath) f) \<and>
            get_prop c ''schemaFilepath'' = JStr (resolved (getDatabaseConfigDirectory (cwd w) filepath) s) \<and>
            get_prop c ''configFilepath'' = JStr (resolved (getDatabaseConfigDirectory (cwd w) filepath) cf) \<and>
            get_prop c ''projectPackageJsonFilepath'' = JStr (resolved (getDatabaseConfigDirectory (cwd w) filepath) pj) \<and>
            get_prop c ''generatedCodeDirectory'' = JStr (resolved (getDatabaseConfigDirectory (cwd w) filepath) g) \<and>
            get_prop c ''databaseConfigJsonFilepath'' = JStr (path_join [getDatabaseConfigDirectory (cwd w) filepath, ''package.json'']) \<and>
            get_prop c ''generatedPackageJsonFilepath'' = JStr (path_join [resolved (getDatabaseConfigDirectory (cwd w) filepath) g, ''package.json'']) \<and>
            get_prop c ''hyperschemaDirectory'' = JStr (path_join [resolved (getDatabaseConfigDirectory (cwd w) filepath) g, ''schemas'']) \<and>
            get_prop c ''hyperdbDirectory'' = JStr (path_join [resolved (getDatabaseConfigDirectory (cwd w) filepath) g, ''database''])"
    apply (rule exI [of _ f], rule exI [of _ s], rule exI [of _ cf], rule exI [of _ pj], rule exI [of _ g])
    apply (intro conjI)
    apply (rule p)+
    done
next
  show "get_prop c ''package'' =
           (case getPackageJson w (cwd w) of
              Inr pkg \<Rightarrow> pkg
            | Inl e \<Rightarrow> (case map_of (loadUserConfig w filepath) ''package'' of
                          Some v \<Rightarrow> v
                        | None \<Rightarrow> JObj []))"
    by (simp add: mergeConfig_package [OF assms] get_prop_merge defaultConfig_props
          split: sum.splits option.splits)
next
  show "if truthy (get_prop c ''package'')
          then \<exists>t. js_member (get_prop c ''package'') ''type'' = Inr t \<and>
                   get_prop c ''moduleType'' = js_or t (JStr ''commonjs'')
          else get_prop c ''moduleType'' = get_prop (loadUserConfig w filepath) ''moduleType''"
  proof (cases "js_member (get_prop c ''package'') ''type''")
    case (Inl e)
    then show ?thesis using mergeConfig_moduleType [OF assms, of e undefined] by (simp split: if_splits)
  next
    case (Inr t)
    then show ?thesis using mergeConfig_moduleType [OF assms, of undefined t] by (simp split: if_splits)
  qed
qed

text \<open>
  An instance of C2 as amended, in \<open>configured_project\<close>: the user's own key \<^verbatim>\<open>theme\<close>
  survives, the assigned keys hold the derived values.
\<close>

theorem mergeConfig_precedence_witness:
  "mergeConfig configured_project (Some ''db'') flags_plain = Inr merged_configured
   \<and> get_prop merged_configured ''theme'' = JStr ''dark''
   \<and> get_prop merged_configured ''databaseConfigDirectory'' = JStr ''/proj/db''
   \<and> get_prop merged_configured ''examples'' = JBool False
   \<and> get_prop merged_configured ''package'' = JObj [(''name'', JStr ''app''), (''type'', JStr ''module'')]
   \<and> get_prop merged_configured ''moduleType'' = JStr ''module''"
proof -
  have m: "mergeConfig configured_project (Some ''db'') flags_plain = Inr merged_configured"
    by code_simp
  have k: "''theme'' \<notin> set assigned_keys" by code_simp
  have u: "map_of (loadUserConfig configured_project (Some ''db'')) ''theme'' = Some (JStr ''dark'')"
    "getDatabaseConfigDirectory (cwd configured_project) (Some ''db'') = ''/proj/db''"
    "js_member flags_plain ''examples'' = Inr (JBool False)"
    "getPackageJson configured_project (cwd configured_project)
       = Inr (JObj [(''name'', JStr ''app''), (''type'', JStr ''module'')])"
    "js_member (JObj [(''name'', JStr ''app''), (''type'', JStr ''module'')]) ''type'' = Inr (JStr ''module'')"
    "js_or (JStr ''module'') (JStr ''commonjs'') = JStr ''module''"
    by code_simp+
  have v: "get_prop merged_configured ''databaseConfigDirectory'' = JStr ''/proj/db''"
    "get_prop merged_configured ''examples'' = JBool False"
    "get_prop merged_configured ''package'' = JObj [(''name'', JStr ''app''), (''type'', JStr ''module'')]"
    "get_prop merged_configured ''moduleType'' = JStr ''module''"
    by code_simp+
  have "get_prop merged_configured ''theme'' = JStr ''dark''"
    using mergeConfig_precedence [OF m, THEN conjunct1, rule_format, OF k] by (simp add: u)
  then show ?thesis
    using m by (simp add: v)
qed

text \<open>
  Claim C2 as worded (every key present in both the defaults and the user configuration
  takes the user's value, the derived directory and paths apart) does not hold for the key
  \<^verbatim>\<open>package\<close>: it is in the defaults and in the user configuration of
  \<open>configured_project\<close>, and the merged configuration holds the manifest of the working
  directory instead of the user's value.
\<close>

theorem mergeConfig_package_counterexample:
  "map_of defaultConfig ''package'' = Some (JObj [])
   \<and> map_of (loadUserConfig configured_project (Some ''db'')) ''package''
       = Some (JObj [(''name'', JStr ''mine'')])
   \<and> mergeConfig configured_project (Some ''db'') flags_plain = Inr merged_configured
   \<and> get_prop merged_configured ''package'' \<noteq> JObj [(''name'', JStr ''mine'')]"
  by code_simp


section \<open>Scaffolding\<close>

text \<open>
  Claim C4 against the code.  In \<open>occupied_project\<close> the database configuration directory
  \<^verbatim>\<open>/proj/db\<close> exists, and \<^verbatim>\<open>init\<close> is given the path \<open>roundabout\<close>, which names that
  directory through the missing \<^verbatim>\<open>/proj/missing\<close>.  The guard asks \<^verbatim>\<open>fs.access\<close>, which fails
  at the missing directory, so \<^verbatim>\<open>exists\<close> answers no and \<^verbatim>\<open>init\<close> does not refuse: the
  recursive \<^verbatim>\<open>mkdir\<close> creates \<^verbatim>\<open>/proj/missing\<close>, and \<^verbatim>\<open>functions.js\<close> and the generated
  directory are created inside the existing \<^verbatim>\<open>/proj/db\<close>, before \<^verbatim>\<open>init\<close> throws at the
  missing template.  The file system is not the one \<^verbatim>\<open>init\<close> found.
\<close>

theorem init_existing_directory_not_refused:
  "getDatabaseConfigDirectory (cwd occupied_project) (Some roundabout) = roundabout
   \<and> fs_resolve (cwd occupied_project) roundabout = [''proj'', ''db'']
   \<and> exists occupied_project (JStr roundabout) = Inr False
   \<and> map (files occupied_project)
       [[''proj'', ''db''],
        [''proj'', ''missing''],
        [''proj'', ''db'', ''functions.js''],
        [''proj'', ''db'', ''generated'']]
     = [Some Dir, None, None, None]
   \<and> fst (init basic_js (HyperdbHelper []) (Some roundabout) flags_plain occupied_project)
       = Inl (TypeError ''templates.packageJsonTemplate is not a function'')
   \<and> map (files (snd (init basic_js (HyperdbHelper []) (Some roundabout) flags_plain
                         occupied_project)))
       [[''proj'', ''db''],
        [''proj'', ''missing''],
        [''proj'', ''db'', ''functions.js''],
        [''proj'', ''db'', ''generated'']]
     = [Some Dir, Some Dir, Some (File (FunctionFileTemplate False)), Some Dir]"
  by code_simp

text \<open>
  Claim C1 against the code.  In the same run the user's own \<^verbatim>\<open>/proj/db/config.js\<close> and
  \<^verbatim>\<open>/proj/db/schema.js\<close> are written over with the templates: the files are written at the
  paths that \<^verbatim>\<open>path.join\<close> has normalised, where the guard looked at the path as given.
  With a template namespace that exports \<^verbatim>\<open>packageJsonTemplate\<close> the same call even
  returns normally, the two files written over all the same.
\<close>

theorem init_overwrites_existing_files:
  "map (files occupied_project)
       [[''proj'', ''db'', ''config.js''], [''proj'', ''db'', ''schema.js'']]
     = [Some (File (Text ''my settings'')), Some (File (Text ''my schema''))]
   \<and> map (files (snd (init basic_js (HyperdbHelper []) (Some roundabout) flags_plain
                         occupied_project)))
       [[''proj'', ''db'', ''config.js''], [''proj'', ''db'', ''schema.js'']]
     = [Some (File ConfigFileTemplate), Some (File (SchemaFileTemplate False))]
   \<and> fst (init with_packageJsonTemplate (HyperdbHelper []) (Some roundabout) flags_plain
            occupied_project)
       = Inr [''hyperschema'', ''hyperdb'', ''corestore'']
   \<and> map (files (snd (init with_packageJsonTemplate (HyperdbHelper []) (Some roundabout)
                         flags_plain occupied_project)))
       [[''proj'', ''db'', ''config.js''], [''proj'', ''db'', ''schema.js'']]
     = [Some (File ConfigFileTemplate), Some (File (SchemaFileTemplate False))]"
  by code_simp


text \<open>
  Claim C7 against the code.  A run of \<^verbatim>\<open>init\<close> that passes every guard, here in
  \<open>fresh_project\<close>, creates the database directory, \<^verbatim>\<open>config.js\<close>, \<^verbatim>\<open>functions.js\<close>,
  \<^verbatim>\<open>schema.js\<close> and the generated directory, and then throws a TypeError at
  \<^verbatim>\<open>templates.packageJsonTemplate\<close>, which \<^verbatim>\<open>src/templates/basic.js\<close> does not export: neither
  \<^verbatim>\<open>package.json\<close> is written and \<^verbatim>\<open>init\<close> does not return.  By \<open>init_basic_js_throws\<close> this
  is so for every input: there is no successful \<^verbatim>\<open>init\<close>.
\<close>

theorem init_fresh_project_throws:
  "fst (init basic_js (HyperdbHelper []) None flags_plain fresh_project)
     = Inl (TypeError ''templates.packageJsonTemplate is not a function'')
   \<and> map (files (snd (init basic_js (HyperdbHelper []) None flags_plain fresh_project)))
       [[''proj'', ''database''],
        [''proj'', ''database'', ''config.js''],
        [''proj'', ''database'', ''functions.js''],
        [''proj'', ''database'', ''schema.js''],
        [''proj'', ''database'', ''generated''],
        [''proj'', ''database'', ''package.json''],
        [''proj'', ''database'', ''generated'', ''package.json'']]
     = [Some Dir,
        Some (File ConfigFileTemplate),
        Some (File (FunctionFileTemplate False)),
        Some (File (SchemaFileTemplate False)),
        Some Dir,
        None,
        None]"
  by code_simp


section \<open>Build orchestration\<close>

text \<open>
  Claim C9.  If the resolved database configuration directory does not exist, \<^verbatim>\<open>build\<close>
  throws and leaves the world as it found it: the trace is unchanged, so neither the
  schema module was loaded nor a builder called, and no file was written.
\<close>

theorem build_missing_directory:
  assumes "files w (fs_resolve (cwd w) (getDatabaseConfigDirectory (cwd w) filepath)) = None"
  shows "\<exists>e. build filepath options w = (Inl e, w)"
proof (cases "mergeConfig w filepath options")
  case (Inl e)
  then show ?thesis by (simp add: build_cases)
next
  case (Inr c)
  from Inr obtain ex f s cf pj g where p:
    "js_member options ''examples'' = Inr ex"
    "get_prop c ''databaseConfigDirectory'' = JStr (getDatabaseConfigDirectory (cwd w) filepath)"
    by (rule mergeConfig_props)
  from exists_lexically_absent [OF assms] show ?thesis
  proof
    assume "exists w (JStr (getDatabaseConfigDirectory (cwd w) filepath)) = Inr False"
    then show ?thesis by (simp add: build_cases Inr p(2))
  next
    assume "\<exists>e. exists w (JStr (getDatabaseConfigDirectory (cwd w) filepath)) = Inl e"
    then obtain e where "exists w (JStr (getDatabaseConfigDirectory (cwd w) filepath)) = Inl e" ..
    then show ?thesis by (simp add: build_cases Inr p(2))
  qed
qed

text \<open>
  An instance of C9: \<^verbatim>\<open>build\<close> in \<open>fresh_project\<close>, which has no \<^verbatim>\<open>database\<close> directory.
\<close>

theorem build_missing_directory_witness:
  "files fresh_project
     (fs_resolve (cwd fresh_project) (getDatabaseConfigDirectory (cwd fresh_project) None)) = None
   \<and> build None flags_plain fresh_project
       = (Inl (DatabaseDirectoryNotFound ''/proj/database''), fresh_project)"
proof -
  have h: "files fresh_project
     (fs_resolve (cwd fresh_project) (getDatabaseConfigDirectory (cwd fresh_project) None)) = None"
    by code_simp
  from build_missing_directory [OF this, of flags_plain]
  obtain e where e: "build None flags_plain fresh_project = (Inl e, fresh_project)"
    by blast
  have "fst (build None flags_plain fresh_project) = Inl (DatabaseDirectoryNotFound ''/proj/database'')"
    by code_simp
  with e have "e = DatabaseDirectoryNotFound ''/proj/database''" by simp
  with e h show ?thesis by simp
qed



text \<open>
  When \<^verbatim>\<open>createDatabase\<close> throws, the build ends there: the schema builder has run to its
  end and its output is on disk, \<^verbatim>\<open>HyperDB.toDisk\<close> is never called and the database
  directory is not written.
\<close>

lemma build_stops_at_throw:
  "fst (build None flags_plain failing_project)
     = Inl (ExternalError (CreateDatabase ''/proj/database/schema.js''
              ''/proj/database/generated/schemas'' ''/proj/database/generated/database''))
   \<and> trace (snd (build None flags_plain failing_project))
       = butlast (build_sequence ''/proj/database/schema.js'' ''/proj/database/generated/schemas''
           ''/proj/database/generated/database'')
   \<and> map (files (snd (build None flags_plain failing_project)))
       [[''proj'', ''database'', ''generated'', ''schemas'', ''index.js''],
        [''proj'', ''database'', ''generated'', ''database'', ''index.js'']]
     = [Some (File (Text ''schema code'')), None]"
  by code_simp


section \<open>Initialising without a manifest\<close>

text \<open>
  Claim C10, as the code has it.  In a well-formed file system, with the working directory
  an existing directory that holds no \<^verbatim>\<open>package.json\<close>, \<^verbatim>\<open>init\<close> throws and leaves the world
  as it found it.  When configuration resolution itself throws, that error is the one
  thrown.  Otherwise \<^verbatim>\<open>config.package\<close> is \<^verbatim>\<open>undefined\<close> and \<^verbatim>\<open>mergeConfig\<close> sets no
  \<^verbatim>\<open>moduleType\<close>: the error is the missing-fields error of \<^verbatim>\<open>validateConfig\<close>, naming
  \<^verbatim>\<open>moduleType\<close> alone, unless the user configuration module supplies a truthy
  \<^verbatim>\<open>moduleType\<close> of its own, in which case validation passes and the error is the
  dedicated one for the missing \<^verbatim>\<open>package.json\<close>.
\<close>

theorem init_without_manifest:
  assumes wf: "wf_fs (files w)" and abs: "isAbsolute (cwd w)"
    and cwd_dir: "files w (fs_resolve (cwd w) (cwd w)) = Some Dir"
    and nopkg: "files w (fs_resolve (cwd w) ''./package.json'') = None"
  shows "init tpl this filepath options w =
           (Inl (case mergeConfig w filepath options of
                   Inl e \<Rightarrow> e
                 | Inr c \<Rightarrow>
                     if truthy (get_prop (loadUserConfig w filepath) ''moduleType'')
                     then PackageJsonNotFound
                     else MissingConfigFields [''moduleType'']),
            w)"
proof (cases "mergeConfig w filepath options")
  case (Inl e)
  then show ?thesis by (simp add: init_cases)
next
  case (Inr c)
  note nm = no_manifest [OF wf abs cwd_dir nopkg]
  have pkg: "get_prop c ''package'' = JUndefined"
    by (simp add: mergeConfig_package [OF Inr] nm(2))
  have mt: "get_prop c ''moduleType'' = get_prop (loadUserConfig w filepath) ''moduleType''"
    using mergeConfig_moduleType [OF Inr, of undefined undefined] by (simp add: pkg)
  show ?thesis
    by (simp add: init_cases Inr validateConfig_paths_set [OF abs Inr] mt nm(1))
qed

text \<open>
  An instance of C10 as amended: \<^verbatim>\<open>init\<close> in \<open>bare_project\<close>.
\<close>

theorem init_without_manifest_witness:
  "wf_fs (files bare_project) \<and> isAbsolute (cwd bare_project)
   \<and> files bare_project (fs_resolve (cwd bare_project) (cwd bare_project)) = Some Dir
   \<and> files bare_project (fs_resolve (cwd bare_project) ''./package.json'') = None
   \<and> init basic_js (HyperdbHelper []) None flags_plain bare_project
       = (Inl (MissingConfigFields [''moduleType'']), bare_project)"
proof -
  have h: "isAbsolute (cwd bare_project)"
    "files bare_project (fs_resolve (cwd bare_project) (cwd bare_project)) = Some Dir"
    "files bare_project (fs_resolve (cwd bare_project) ''./package.json'') = None"
    by code_simp+
  have c: "(case mergeConfig bare_project None flags_plain of
              Inl e \<Rightarrow> e
            | Inr c \<Rightarrow>
                if truthy (get_prop (loadUserConfig bare_project None) ''moduleType'')
                then PackageJsonNotFound
                else MissingConfigFields [''moduleType''])
           = MissingConfigFields [''moduleType'']"
    by code_simp
  show ?thesis
    using init_without_manifest [OF wf_bare_project h, of basic_js "HyperdbHelper []" None flags_plain]
      wf_bare_project h
    unfolding c by simp
qed

text \<open>
  Claim C10 as worded (without a manifest the error is always the missing-fields error,
  never the dedicated one) fails in \<open>module_type_project\<close>: there is no \<^verbatim>\<open>package.json\<close>,
  the user configuration sets \<^verbatim>\<open>moduleType\<close>, and \<^verbatim>\<open>init\<close> throws the dedicated error.
\<close>

theorem init_without_manifest_counterexample:
  "files module_type_project (fs_resolve (cwd module_type_project) ''./package.json'') = None
   \<and> fst (init basic_js (HyperdbHelper []) (Some ''db'') flags_plain module_type_project)
       = Inl PackageJsonNotFound"
  by code_simp



end
